theory Spec2Isabelle
  imports Complex_Main "HOL-Library.Word"
begin

section \<open>Python and SQLite values\<close>

text \<open>
  A Python \<open>str\<close> is modelled as a \<open>string\<close>, one \<open>char\<close> per code point, so the
  model covers text whose code points are below 256; \<open>length\<close> is Python's \<open>len\<close>.
  A Python \<open>bytes\<close> value is a list of 8-bit words.
\<close>

type_synonym bytes = "8 word list"

definition py_isspace :: "char \<Rightarrow> bool" where
  "py_isspace c =
     (let n = (of_char c :: nat)
      in (9 \<le> n \<and> n \<le> 13) \<or> (28 \<le> n \<and> n \<le> 32) \<or> n = 133 \<or> n = 160)"

definition lstrip :: "string \<Rightarrow> string" where
  "lstrip s = dropWhile py_isspace s"

definition rstrip :: "string \<Rightarrow> string" where
  "rstrip s = rev (dropWhile py_isspace (rev s))"

definition strip :: "string \<Rightarrow> string" where
  "strip s = rstrip (lstrip s)"

definition utf8_char :: "char \<Rightarrow> bytes" where
  "utf8_char c =
     (let n = (of_char c :: nat)
      in if n < 128 then [of_nat n]
         else [of_nat (192 + n div 64), of_nat (128 + n mod 64)])"

definition encode_utf8 :: "string \<Rightarrow> bytes" where
  "encode_utf8 s = concat (map utf8_char s)"

definition hex_val :: "char \<Rightarrow> nat option" where
  "hex_val c =
     (let n = (of_char c :: nat)
      in if 48 \<le> n \<and> n \<le> 57 then Some (n - 48)
         else if 97 \<le> n \<and> n \<le> 102 then Some (n - 87)
         else if 65 \<le> n \<and> n \<le> 70 then Some (n - 55)
         else None)"

text \<open>\<open>bytes.fromhex\<close>; \<open>None\<close> stands for its \<open>ValueError\<close>.\<close>

fun fromhex :: "string \<Rightarrow> bytes option" where
  "fromhex [] = Some []"
| "fromhex [a] = None"
| "fromhex (a # b # r) =
     (case (hex_val a, hex_val b, fromhex r) of
        (Some h, Some l, Some bs) \<Rightarrow> Some (of_nat (16 * h + l) # bs)
      | _ \<Rightarrow> None)"

text \<open>What the \<open>sqlite3\<close> driver hands back for a column.\<close>

datatype sqlval = SqlNull | SqlInt int | SqlReal real | SqlText string | SqlBlob bytes

section \<open>auth.py: the credential store\<close>

text \<open>
  A parsed \<open>%Y-%m-%d %H:%M:%S\<close> text is represented by the whole second it denotes
  (seconds since the epoch, UTC); any other text is \<open>Malformed\<close>. The clock is read in
  microseconds, as \<open>datetime.utcnow()\<close> has them.
\<close>

datatype stamp = Stamp int | Malformed string

record user_row =
  uid :: int
  email :: string
  username :: "string option"
  password_hash :: sqlval
  salt :: sqlval
  role :: string
  is_active :: "int option"

record token_row =
  tid :: int
  user_id :: int
  token :: string
  purpose :: string
  expires_at :: stamp
  used_at :: "stamp option"

record auth_db =
  users :: "user_row list"
  password_tokens :: "token_row list"

text \<open>\<open>_to_bytes\<close>\<close>

definition to_bytes :: "sqlval \<Rightarrow> bytes" where
  "to_bytes v =
     (case v of
        SqlNull \<Rightarrow> []
      | SqlBlob b \<Rightarrow> b
      | SqlText t \<Rightarrow>
          (let s = strip t
           in if length s mod 2 = 0 \<and> (\<forall>c \<in> set s. hex_val c \<noteq> None)
              then (case fromhex s of Some b \<Rightarrow> b | None \<Rightarrow> encode_utf8 s)
              else encode_utf8 s)
      | SqlInt n \<Rightarrow> (if 0 \<le> n then replicate (nat n) 0 else [])
      | SqlReal r \<Rightarrow> [])"

text \<open>
  \<open>_hash_password\<close>. The key derivation \<open>hashlib.pbkdf2_hmac("sha256", _, _, 200_000)\<close>
  is the parameter \<open>H\<close> (password bytes, then salt bytes).
\<close>

definition hash_password :: "(bytes \<Rightarrow> bytes \<Rightarrow> bytes) \<Rightarrow> string \<Rightarrow> bytes \<Rightarrow> bytes" where
  "hash_password H password slt = H (encode_utf8 password) (to_bytes (SqlBlob slt))"

text \<open>\<open>UPDATE users SET password_hash=?, salt=? WHERE id=?\<close>\<close>

definition update_credential :: "bytes \<Rightarrow> bytes \<Rightarrow> int \<Rightarrow> auth_db \<Rightarrow> auth_db" where
  "update_credential pwh slt i db =
     db\<lparr>users := map (\<lambda>u. if uid u = i
                              then u\<lparr>password_hash := SqlBlob pwh, salt := SqlBlob slt\<rparr>
                              else u) (users db)\<rparr>"

text \<open>
  \<open>SELECT ... FROM users WHERE (email=? OR username=?)\<close> followed by \<open>fetchone()\<close>: the
  first matching row in table order.
\<close>

definition select_user :: "string \<Rightarrow> auth_db \<Rightarrow> user_row option" where
  "select_user login db =
     find (\<lambda>u. email u = login \<or> username u = Some login) (users db)"

definition truthy_int :: "int option \<Rightarrow> bool" where
  "truthy_int v = (case v of None \<Rightarrow> False | Some n \<Rightarrow> n \<noteq> 0)"

definition zero_salt :: bytes where
  "zero_salt = replicate 16 0"

text \<open>
  \<open>check_password\<close>. \<open>new_salt\<close> is the value \<open>secrets.token_bytes(16)\<close> returns if it
  is drawn. The result is the boolean together with the committed store.
\<close>

definition check_password ::
  "(bytes \<Rightarrow> bytes \<Rightarrow> bytes) \<Rightarrow> bytes \<Rightarrow> string \<Rightarrow> string \<Rightarrow> auth_db \<Rightarrow> bool \<times> auth_db" where
  "check_password H new_salt login password db =
     (case select_user login db of
        None \<Rightarrow> (False, db)
      | Some row \<Rightarrow>
          if \<not> truthy_int (is_active row) then (False, db)
          else
            let stored = to_bytes (password_hash row);
                salt_b = to_bytes (salt row)
            in if (salt_b = [] \<or> salt_b = zero_salt) \<and> stored \<noteq> []
                    \<and> stored = encode_utf8 password
               then (True,
                     update_credential (hash_password H password new_salt) new_salt (uid row) db)
               else if salt_b = [] \<or> stored = [] then (False, db)
               else (stored = hash_password H password salt_b, db))"

text \<open>\<open>set_password\<close>; \<open>None\<close> stands for its \<open>ValueError\<close>.\<close>

definition set_password ::
  "(bytes \<Rightarrow> bytes \<Rightarrow> bytes) \<Rightarrow> bytes \<Rightarrow> int \<Rightarrow> string \<Rightarrow> auth_db \<Rightarrow> auth_db option" where
  "set_password H new_salt i new_password db =
     (if new_password = [] \<or> length new_password < 8 then None
      else Some (update_credential (hash_password H new_password new_salt) new_salt i db))"

text \<open>\<open>_get_user_by_login\<close>: id, email, username and \<open>bool(is_active)\<close>.\<close>

definition get_user_by_login :: "string \<Rightarrow> auth_db \<Rightarrow> (int \<times> string \<times> string option \<times> bool) option" where
  "get_user_by_login login db =
     (case select_user login db of
        None \<Rightarrow> None
      | Some row \<Rightarrow> Some (uid row, email row, username row, truthy_int (is_active row)))"

text \<open>The next \<open>AUTOINCREMENT\<close> id of the token table.\<close>

definition next_tid :: "auth_db \<Rightarrow> int" where
  "next_tid db = fold (\<lambda>t m. max (tid t) m) (password_tokens db) 0 + 1"

text \<open>
  \<open>_create_token\<close>. \<open>tok\<close> is the value of \<open>secrets.token_urlsafe(24)\<close>, \<open>now\<close> the clock
  in microseconds; \<open>strftime\<close> drops the microseconds of \<open>now + minutes_valid\<close>.
\<close>

definition create_token :: "string \<Rightarrow> int \<Rightarrow> int \<Rightarrow> string \<Rightarrow> int \<Rightarrow> auth_db \<Rightarrow> string \<times> auth_db" where
  "create_token tok now u purp minutes_valid db =
     (tok,
      db\<lparr>password_tokens := password_tokens db @
           [\<lparr>tid = next_tid db, user_id = u, token = tok, purpose = purp,
             expires_at = Stamp ((now + minutes_valid * 60000000) div 1000000),
             used_at = None\<rparr>]\<rparr>)"

text \<open>\<open>UPDATE password_tokens SET used_at=strftime('%Y-%m-%d %H:%M:%S','now') WHERE id=?\<close>\<close>

definition mark_used :: "int \<Rightarrow> int \<Rightarrow> auth_db \<Rightarrow> auth_db" where
  "mark_used i now db =
     db\<lparr>password_tokens :=
          map (\<lambda>t. if tid t = i then t\<lparr>used_at := Some (Stamp (now div 1000000))\<rparr> else t)
              (password_tokens db)\<rparr>"

definition generic_msg :: string where
  "generic_msg = ''If the account is registered and active, a confirmation token has been sent.''"

definition join_lines :: "string list \<Rightarrow> string" where
  "join_lines ls = (case ls of [] \<Rightarrow> [] | l # r \<Rightarrow> l @ concat (map (\<lambda>x. CHR 0x0A # x) r))"

definition rstrip_slash :: "string \<Rightarrow> string" where
  "rstrip_slash s = rev (dropWhile (\<lambda>c. c = CHR ''/'') (rev s))"

text \<open>The subject and the body of the mail that \<open>request_password_change\<close> builds.\<close>

definition reset_subject :: "string \<Rightarrow> string" where
  "reset_subject app_name = ''['' @ app_name @ ''] Confirm password change''"

definition reset_link :: "string option \<Rightarrow> string \<Rightarrow> string option" where
  "reset_link link_base_url tk =
     (case link_base_url of
        None \<Rightarrow> None
      | Some b \<Rightarrow> if b = [] then None
                  else Some (rstrip_slash b @ ''/change-password?token='' @ tk))"

definition reset_body :: "string \<Rightarrow> string \<Rightarrow> string \<Rightarrow> string option \<Rightarrow> string" where
  "reset_body app_name em tk link =
     join_lines
       ([''Hello,'', [],
         ''We received a request to change the password for your '' @ app_name
            @ '' account ('' @ em @ '').'',
         [], ''Your confirmation token is:'', [], ''    '' @ tk, [],
         ''This token will expire in 15 minutes.'']
        @ (case link of
             None \<Rightarrow> []
           | Some l \<Rightarrow> if l = [] then []
                       else [[], ''Alternatively, click the link below to proceed:'', l])
        @ [[], ''If you did not request this change, you can safely ignore this email.''])"

text \<open>
  \<open>request_password_change\<close>. \<open>send_email\<close> is \<open>_send_email\<close> (recipient, subject, body):
  \<open>None\<close> when the message went out, \<open>Some e\<close> when it raised the exception whose text is \<open>e\<close>.
\<close>

definition request_password_change ::
  "(string \<Rightarrow> string \<Rightarrow> string \<Rightarrow> string option) \<Rightarrow> string \<Rightarrow> int \<Rightarrow> string \<Rightarrow> string
     \<Rightarrow> string option \<Rightarrow> auth_db \<Rightarrow> (bool \<times> string) \<times> auth_db" where
  "request_password_change send_email tok now login app_name link_base_url db =
     (case get_user_by_login login db of
        None \<Rightarrow> ((True, generic_msg), db)
      | Some (i, em, un, act) \<Rightarrow>
          if \<not> act then ((True, generic_msg), db)
          else
            let r = create_token tok now i ''password_change'' 15 db;
                tk = fst r;
                db' = snd r
            in case send_email em (reset_subject app_name)
                      (reset_body app_name em tk (reset_link link_base_url tk)) of
                 Some e \<Rightarrow> ((False, ''Failed to send token email: '' @ e), db')
               | None \<Rightarrow> ((True, generic_msg), db'))"

text \<open>
  \<open>verify_token_and_change_password\<close>. The token row is the first one whose text is the
  given token; the two \<open>UPDATE\<close>s are committed together.
\<close>

definition verify_token_and_change_password ::
  "(bytes \<Rightarrow> bytes \<Rightarrow> bytes) \<Rightarrow> bytes \<Rightarrow> int \<Rightarrow> string \<Rightarrow> string \<Rightarrow> auth_db
     \<Rightarrow> (bool \<times> string) \<times> auth_db" where
  "verify_token_and_change_password H new_salt now tok new_password db =
     (if tok = [] \<or> new_password = []
      then ((False, ''Token and new password are required.''), db)
      else
        case find (\<lambda>t. token t = tok) (password_tokens db) of
          None \<Rightarrow> ((False, ''Invalid or expired token.''), db)
        | Some row \<Rightarrow>
            if purpose row \<noteq> ''password_change''
            then ((False, ''Invalid token purpose.''), db)
            else if used_at row \<noteq> None
            then ((False, ''This token has already been used.''), db)
            else
              case expires_at row of
                Malformed x \<Rightarrow> ((False, ''Token expiry is malformed.''), db)
              | Stamp e \<Rightarrow>
                  if now > e * 1000000
                  then ((False, ''This token has expired.''), db)
                  else if length new_password < 8
                  then ((False, ''Password must be at least 8 characters.''), db)
                  else ((True, ''Password changed successfully.''),
                        mark_used (tid row) now
                          (update_credential (H (encode_utf8 new_password) new_salt) new_salt
                             (user_id row) db)))"

text \<open>
  \<open>ensure_user\<close>. \<open>rand_pw\<close> is the value of \<open>secrets.token_urlsafe(10)\<close>; \<open>None\<close> stands
  for the \<open>IntegrityError\<close> of the \<open>UNIQUE\<close> constraint on \<open>username\<close>.
\<close>

definition next_uid :: "auth_db \<Rightarrow> int" where
  "next_uid db = fold (\<lambda>u m. max (uid u) m) (users db) 0 + 1"

definition ensure_user ::
  "(bytes \<Rightarrow> bytes \<Rightarrow> bytes) \<Rightarrow> string \<Rightarrow> bytes \<Rightarrow> string \<Rightarrow> string option \<Rightarrow> string option
     \<Rightarrow> string \<Rightarrow> bool \<Rightarrow> auth_db \<Rightarrow> int option \<times> auth_db" where
  "ensure_user H rand_pw new_salt em password uname rl act db =
     (case find (\<lambda>u. if uname \<noteq> None \<and> uname \<noteq> Some []
                      then email u = em \<or> username u = uname
                      else email u = em) (users db) of
        Some row \<Rightarrow> (Some (uid row), db)
      | None \<Rightarrow>
          if uname \<noteq> None \<and> (\<exists>u \<in> set (users db). username u = uname) then (None, db)
          else
            let pw = (case password of None \<Rightarrow> rand_pw | Some p \<Rightarrow> p);
                pwh = hash_password H pw new_salt
            in (Some (next_uid db),
                db\<lparr>users := users db @
                     [\<lparr>uid = next_uid db, email = em, username = uname,
                       password_hash = SqlBlob pwh, salt = SqlBlob new_salt, role = rl,
                       is_active = Some (if act then 1 else 0)\<rparr>]\<rparr>))"

text \<open>The calls of \<open>auth.py\<close> that write the store, and a session of such calls in sequence.\<close>

datatype auth_op =
    OpCheckPassword bytes string string
  | OpSetPassword bytes int string
  | OpEnsureUser string bytes string "string option" "string option" string bool
  | OpCreateToken string int int string int
  | OpRequestChange string int string string "string option"
  | OpVerifyToken bytes int string string

fun apply_op ::
  "(bytes \<Rightarrow> bytes \<Rightarrow> bytes) \<Rightarrow> (string \<Rightarrow> string \<Rightarrow> string \<Rightarrow> string option) \<Rightarrow> auth_op
     \<Rightarrow> auth_db \<Rightarrow> auth_db" where
  "apply_op H send (OpCheckPassword s l p) db = snd (check_password H s l p db)"
| "apply_op H send (OpSetPassword s i p) db =
     (case set_password H s i p db of None \<Rightarrow> db | Some db' \<Rightarrow> db')"
| "apply_op H send (OpEnsureUser rp s em p un rl a) db = snd (ensure_user H rp s em p un rl a db)"
| "apply_op H send (OpCreateToken tk now u pu m) db = snd (create_token tk now u pu m db)"
| "apply_op H send (OpRequestChange tk now l app lnk) db =
     snd (request_password_change send tk now l app lnk db)"
| "apply_op H send (OpVerifyToken s now tk p) db =
     snd (verify_token_and_change_password H s now tk p db)"

definition run_ops ::
  "(bytes \<Rightarrow> bytes \<Rightarrow> bytes) \<Rightarrow> (string \<Rightarrow> string \<Rightarrow> string \<Rightarrow> string option) \<Rightarrow> auth_op list
     \<Rightarrow> auth_db \<Rightarrow> auth_db" where
  "run_ops H send ops db = fold (apply_op H send) ops db"

text \<open>A stand-in key derivation with 32-byte output, for evaluating concrete runs.\<close>

definition kdf32 :: "bytes \<Rightarrow> bytes \<Rightarrow> bytes" where
  "kdf32 p s = take 32 (s @ p @ replicate 32 1)"

text \<open>
  A token text is consumed in a store when the row a redemption would find for it is a
  password-change token carrying a consumption timestamp.
\<close>

definition consumed :: "string \<Rightarrow> auth_db \<Rightarrow> bool" where
  "consumed tok db =
     (\<exists>row. find (\<lambda>t. token t = tok) (password_tokens db) = Some row
            \<and> purpose row = ''password_change'' \<and> used_at row \<noteq> None)"

subsection \<open>Concrete stores for evaluation\<close>

definition salt7 :: bytes where
  "salt7 = replicate 16 7"



definition hashed_user :: "int option \<Rightarrow> user_row" where
  "hashed_user act =
     \<lparr>uid = 1, email = ''a@x.com'', username = Some ''a'',
      password_hash = SqlBlob (kdf32 (encode_utf8 ''hunter22'') salt7), salt = SqlBlob salt7,
      role = ''User'', is_active = act\<rparr>"

definition hashed_db :: "int option \<Rightarrow> auth_db" where
  "hashed_db act = \<lparr>users = [hashed_user act], password_tokens = []\<rparr>"

definition mail_ok :: "string \<Rightarrow> string \<Rightarrow> string \<Rightarrow> string option" where
  "mail_ok rcpt subject body = None"

definition token_db :: auth_db where
  "token_db = snd (create_token ''tok-abc'' 900000 1 ''password_change'' 15 (hashed_db (Some 1)))"



section \<open>ui_settings_import.py: normalizers\<close>

text \<open>
  Case conversion is the ASCII one: the cased characters of the model are the letters
  \<open>A\<close> to \<open>Z\<close> and \<open>a\<close> to \<open>z\<close>; every other character is uncased and left as it is.
  Python floats are modelled as reals, so rounding, infinities and not-a-number values lie
  outside the model.
\<close>

definition upper_letters :: string where
  "upper_letters = ''ABCDEFGHIJKLMNOPQRSTUVWXYZ''"

definition lower_letters :: string where
  "lower_letters = ''abcdefghijklmnopqrstuvwxyz''"

definition is_upper :: "char \<Rightarrow> bool" where
  "is_upper c = (c \<in> set upper_letters)"

definition is_lower :: "char \<Rightarrow> bool" where
  "is_lower c = (c \<in> set lower_letters)"

definition to_lower :: "char \<Rightarrow> char" where
  "to_lower c = (case map_of (zip upper_letters lower_letters) c of Some d \<Rightarrow> d | None \<Rightarrow> c)"

definition to_upper :: "char \<Rightarrow> char" where
  "to_upper c = (case map_of (zip lower_letters upper_letters) c of Some d \<Rightarrow> d | None \<Rightarrow> c)"

text \<open>\<open>str.lower\<close>\<close>

definition lower :: "string \<Rightarrow> string" where
  "lower s = map to_lower s"

text \<open>
  \<open>str.title\<close>: a cased character is upper-cased when the character before it is not
  cased, and lower-cased otherwise.
\<close>

fun title_from :: "bool \<Rightarrow> string \<Rightarrow> string" where
  "title_from prev [] = []"
| "title_from prev (c # cs) =
     (if is_upper c \<or> is_lower c
      then (if prev then to_lower c else to_upper c) # title_from True cs
      else c # title_from False cs)"

definition title :: "string \<Rightarrow> string" where
  "title s = title_from False s"

text \<open>\<open>sub in s\<close> and \<open>s.startswith(sub)\<close> and \<open>s.endswith(sub)\<close> on strings.\<close>

definition startswith :: "string \<Rightarrow> string \<Rightarrow> bool" where
  "startswith s sub = (take (length sub) s = sub)"

definition endswith :: "string \<Rightarrow> string \<Rightarrow> bool" where
  "endswith s sub = (length sub \<le> length s \<and> drop (length s - length sub) s = sub)"

fun contains :: "string \<Rightarrow> string \<Rightarrow> bool" where
  "contains [] sub = (sub = [])"
| "contains (c # cs) sub = (startswith (c # cs) sub \<or> contains cs sub)"

definition ALLOWED_STATUS :: "string set" where
  "ALLOWED_STATUS = {''Pending'', ''Paid'', ''Voided''}"

definition STATUS_MAP :: "(string \<times> string) list" where
  "STATUS_MAP =
     [(''unpaid'', ''Pending''), (''new'', ''Pending''), (''open'', ''Pending''),
      (''partially paid'', ''Pending''), (''partial'', ''Pending''),
      (''awaiting payment'', ''Pending''), (''due'', ''Pending''),
      (''cancelled'', ''Voided''), (''canceled'', ''Voided''), (''void'', ''Voided''),
      (''voided'', ''Voided''), (''closed - void'', ''Voided''),
      (''complete'', ''Paid''), (''completed'', ''Paid''), (''done'', ''Paid''),
      (''paid/closed'', ''Paid''), (''settled'', ''Paid'')]"

text \<open>
  \<open>_clean_status\<close>. The argument is \<open>None\<close> or a \<open>str\<close> at every call, so \<open>str(x)\<close> is
  the identity.
\<close>

definition clean_status :: "string option \<Rightarrow> string" where
  "clean_status x =
     (case x of
        None \<Rightarrow> ''Pending''
      | Some t \<Rightarrow>
          let s = strip t
          in if s = [] \<or> lower s \<in> {''nan'', ''none'', ''null''} then ''Pending''
             else let low = lower s
                  in case map_of STATUS_MAP low of
                       Some v \<Rightarrow> v
                     | None \<Rightarrow> strip (title s))"

text \<open>\<open>_clean_invoice_no\<close>, on a \<open>str\<close>.\<close>

definition clean_invoice_no :: "string \<Rightarrow> string" where
  "clean_invoice_no x =
     (let s = strip x;
          s' = (if endswith s ''.0'' then take (length s - 2) s else s)
      in filter (\<lambda>c. \<not> py_isspace c) s')"

definition ALLOWED_VENDORS :: "string set" where
  "ALLOWED_VENDORS = {''Takeout Store'', ''Lola Tindeng'', ''Swiss Proli''}"

definition VENDOR_MAP :: "(string \<times> string) list" where
  "VENDOR_MAP =
     [(''takeout store'', ''Takeout Store''), (''lola tindeng'', ''Lola Tindeng''),
      (''swiss proli'', ''Swiss Proli''), (''swiss proli.'', ''Swiss Proli''),
      (''swiss-proli'', ''Swiss Proli''), (''swissproli'', ''Swiss Proli''),
      (''swiss prolife'', ''Swiss Proli''),
      (''takeoutstore'', ''Takeout Store''), (''takeoutstoreph'', ''Takeout Store''),
      (''takeout-store'', ''Takeout Store''), (''takeout store ph'', ''Takeout Store''),
      (''takeoutstore-ph'', ''Takeout Store'')]"

definition is_alnum_lower :: "char \<Rightarrow> bool" where
  "is_alnum_lower c = (c \<in> set lower_letters \<or> c \<in> set ''0123456789'')"

text \<open>\<open>_clean_vendor\<close>, on a \<open>str\<close>.\<close>

definition clean_vendor :: "string \<Rightarrow> string" where
  "clean_vendor x =
     (let s = strip x
      in if s = [] \<or> lower s \<in> {''nan'', ''none'', ''null''} then []
         else let low = strip (lower s)
              in case map_of VENDOR_MAP low of
                   Some v \<Rightarrow> v
                 | None \<Rightarrow>
                     let alnum = filter is_alnum_lower low
                     in if startswith alnum ''takeout'' then ''Takeout Store''
                        else if contains alnum ''lola'' \<and> contains alnum ''tindeng''
                        then ''Lola Tindeng''
                        else if contains alnum ''swiss'' \<and> contains alnum ''proli''
                        then ''Swiss Proli''
                        else strip (title s))"

text \<open>
  A spreadsheet cell as \<open>pandas\<close> hands it over: missing (\<open>NaN\<close>), a number or a text.
  The two Python conversions between numbers and text are parameters: \<open>str_of_float\<close> is
  \<open>str\<close> on a number, \<open>float_of_str\<close> is \<open>float\<close> on a text, \<open>None\<close> for its \<open>ValueError\<close>.
\<close>

datatype cell = NaN | Num real | Str string

record pybuiltins =
  str_of_float :: "real \<Rightarrow> string"
  float_of_str :: "string \<Rightarrow> real option"

text \<open>\<open>_f\<close> and \<open>_s\<close>; the argument \<open>None\<close> is what \<open>dict.get\<close> gives for an absent column.\<close>

definition f_num :: "pybuiltins \<Rightarrow> cell option \<Rightarrow> real" where
  "f_num py x =
     (case x of
        None \<Rightarrow> 0
      | Some NaN \<Rightarrow> 0
      | Some (Num r) \<Rightarrow> r
      | Some (Str t) \<Rightarrow>
          (case float_of_str py (strip (filter (\<lambda>c. c \<noteq> CHR '','') t)) of
             None \<Rightarrow> 0
           | Some r \<Rightarrow> r))"

definition s_text :: "pybuiltins \<Rightarrow> cell option \<Rightarrow> string" where
  "s_text py x =
     (case x of
        None \<Rightarrow> []
      | Some NaN \<Rightarrow> []
      | Some (Num r) \<Rightarrow> strip (str_of_float py r)
      | Some (Str t) \<Rightarrow> strip t)"

text \<open>\<open>pd.isna\<close> on a cell or on \<open>None\<close>, and Python truthiness of such a value.\<close>

definition isna :: "cell option \<Rightarrow> bool" where
  "isna x = (x = None \<or> x = Some NaN)"

definition truthy_cell :: "cell option \<Rightarrow> bool" where
  "truthy_cell x =
     (case x of
        None \<Rightarrow> False
      | Some NaN \<Rightarrow> True
      | Some (Num r) \<Rightarrow> r \<noteq> 0
      | Some (Str t) \<Rightarrow> t \<noteq> [])"

section \<open>ui_settings_import.py: the reconciler\<close>

text \<open>
  A data frame row is the list of its column labels with their cells (the labels of a frame
  are distinct); \<open>row.get\<close> and the dictionary of the first row read it by label.
\<close>

type_synonym row = "(string \<times> cell) list"


definition rget :: "row \<Rightarrow> string \<Rightarrow> cell option" where
  "rget r k = map_of r k"


fun dedup_from :: "'a list \<Rightarrow> 'a list \<Rightarrow> 'a list" where
  "dedup_from seen [] = []"
| "dedup_from seen (x # xs) =
     (if x \<in> set seen then dedup_from seen xs else x # dedup_from (x # seen) xs)"

definition drop_duplicates :: "'a list \<Rightarrow> 'a list" where
  "drop_duplicates xs = dedup_from [] xs"







subsection \<open>Line items\<close>

record item =
  product_code :: string
  product_name :: string
  unit :: string
  quantity :: real
  price :: real
  total_amount :: real

text \<open>The loop over the rows of a group in \<open>_header_from_group\<close>.\<close>

definition noise_row :: "pybuiltins \<Rightarrow> row \<Rightarrow> bool" where
  "noise_row py r =
     (f_num py (rget r ''Lineitem quantity'') = 0 \<and> isna (rget r ''Lineitem name''))"

definition row_item :: "pybuiltins \<Rightarrow> row \<Rightarrow> item" where
  "row_item py r =
     (let qty = f_num py (rget r ''Lineitem quantity'');
          pr = f_num py (rget r ''Lineitem price'')
      in \<lparr>product_code = s_text py (rget r ''Lineitem sku''),
          product_name = s_text py (rget r ''Lineitem name''),
          unit = [], quantity = qty, price = pr, total_amount = qty * pr\<rparr>)"

definition raw_items :: "pybuiltins \<Rightarrow> row list \<Rightarrow> item list" where
  "raw_items py g = map (row_item py) (filter (\<lambda>r. \<not> noise_row py r) g)"

text \<open>\<open>_aggregate_items\<close>: one item per key, in the order the keys first occur.\<close>

definition item_key :: "item \<Rightarrow> string \<times> string \<times> real \<times> string" where
  "item_key it = (product_code it, product_name it, price it, unit it)"

definition aggregate_items :: "item list \<Rightarrow> item list" where
  "aggregate_items its =
     map (\<lambda>k. \<lparr>product_code = fst k, product_name = fst (snd k), unit = snd (snd (snd k)),
               quantity = sum_list (map quantity (filter (\<lambda>i. item_key i = k) its)),
               price = fst (snd (snd k)),
               total_amount = sum_list (map total_amount (filter (\<lambda>i. item_key i = k) its))\<rparr>)
         (drop_duplicates (map item_key its))"

subsection \<open>Invoice header\<close>

datatype hval = HF real | HS string

type_synonym header = "string \<rightharpoonup> hval"

definition COLMAP :: "(string \<times> string) list" where
  "COLMAP =
     [(''Name'', ''invoice_no''), (''Email'', ''email''),
      (''Financial Status'', ''financial_status''), (''Paid at'', ''paid_at''),
      (''Fulfillment Status'', ''fulfillment_status''),
      (''Fulfilled at'', ''fulfilled_at''), (''Accepts Marketing'', ''accepts_marketing''),
      (''Currency'', ''currency''), (''Subtotal'', ''subtotal''),
      (''Shipping'', ''shipping_cost''), (''Taxes'', ''taxes''), (''Total'', ''total''),
      (''Discount Code'', ''discount_code''), (''Discount Amount'', ''discount_amount''),
      (''Shipping Method'', ''shipping_method''), (''Created at'', ''invoice_date''),
      (''Billing Name'', ''billing_name''), (''Billing Street'', ''billing_street''),
      (''Billing Address1'', ''billing_address1''),
      (''Billing Address2'', ''billing_address2''),
      (''Billing Company'', ''billing_company''), (''Billing City'', ''billing_city''),
      (''Billing Zip'', ''billing_zip''), (''Billing Province'', ''billing_province''),
      (''Billing Country'', ''billing_country''), (''Billing Phone'', ''billing_phone''),
      (''Shipping Name'', ''shipping_name''), (''Shipping Street'', ''shipping_street''),
      (''Shipping Address1'', ''shipping_address1''),
      (''Shipping Address2'', ''shipping_address2''),
      (''Shipping Company'', ''shipping_company''), (''Shipping City'', ''shipping_city''),
      (''Shipping Zip'', ''shipping_zip''), (''Shipping Province'', ''shipping_province''),
      (''Shipping Country'', ''shipping_country''),
      (''Shipping Phone'', ''shipping_phone''), (''Notes'', ''notes''),
      (''Cancelled at'', ''cancelled_at''), (''Payment Method'', ''payment_method''),
      (''Payment Reference'', ''payment_reference''),
      (''Refunded Amount'', ''refunded_amount''), (''Vendor'', ''vendor''),
      (''Outstanding Balance'', ''outstanding_balance''), (''Employee'', ''employee''),
      (''Location'', ''location''), (''Device ID'', ''device_id''),
      (''Id'', ''external_id''), (''Tags'', ''tags''), (''Risk Level'', ''risk_level''),
      (''Source'', ''source''), (''Phone'', ''billing_phone''),
      (''Receipt Number'', ''receipt_number''), (''Duties'', ''duties''),
      (''Billing Province Name'', ''billing_province_name''),
      (''Shipping Province Name'', ''shipping_province_name''),
      (''Payment ID'', ''payment_id''), (''Payment Terms Name'', ''payment_terms_name''),
      (''Next Payment Due At'', ''next_payment_due_at''),
      (''Payment References'', ''payment_reference'')]"

definition money_fields :: "string set" where
  "money_fields =
     {''discount_amount'', ''subtotal'', ''shipping_cost'', ''taxes'', ''total'',
      ''refunded_amount'', ''outstanding_balance'', ''duties''}"

definition base_header :: "pybuiltins \<Rightarrow> row \<Rightarrow> header" where
  "base_header py first =
     fold (\<lambda>(src, dst) h.
             case rget first src of
               None \<Rightarrow> h
             | Some v \<Rightarrow> h(dst \<mapsto> (if dst \<in> money_fields then HF (f_num py (Some v))
                                     else HS (s_text py (Some v)))))
          COLMAP Map.empty"

text \<open>\<open>a or b or ... or ""\<close> on cells.\<close>

fun or_cells :: "cell option list \<Rightarrow> cell option" where
  "or_cells [] = Some (Str [])"
| "or_cells (x # xs) = (if truthy_cell x then x else or_cells xs)"

definition hv_str :: "pybuiltins \<Rightarrow> hval \<Rightarrow> string" where
  "hv_str py v = (case v of HS s \<Rightarrow> s | HF r \<Rightarrow> str_of_float py r)"

definition hv_num :: "hval option \<Rightarrow> real" where
  "hv_num v = (case v of Some (HF r) \<Rightarrow> r | _ \<Rightarrow> 0)"

definition truthy_hval :: "hval option \<Rightarrow> bool" where
  "truthy_hval v =
     (case v of None \<Rightarrow> False | Some (HF r) \<Rightarrow> r \<noteq> 0 | Some (HS s) \<Rightarrow> s \<noteq> [])"

definition str_cell :: "pybuiltins \<Rightarrow> cell \<Rightarrow> string" where
  "str_cell py c = (case c of NaN \<Rightarrow> ''nan'' | Num r \<Rightarrow> str_of_float py r | Str s \<Rightarrow> s)"

text \<open>
  \<open>_header_from_group\<close>, first part: the header fields that are read from the first row
  of the group and normalized.
\<close>

definition header_core :: "pybuiltins \<Rightarrow> row \<Rightarrow> header" where
  "header_core py first =
     (let h0 = base_header py first;
          raw_name = or_cells [rget first ''Name'', rget first ''Id''];
          h1 = (if h0 ''invoice_no'' = None
                then h0(''invoice_no'' \<mapsto> HS (s_text py raw_name)) else h0);
          h2 = h1(''invoice_no'' \<mapsto>
                    HS (clean_invoice_no
                          (case h1 ''invoice_no'' of
                             None \<Rightarrow> []
                           | Some v \<Rightarrow> hv_str py v)));
          h3 = (if h2 ''customer'' = None
                then h2(''customer'' \<mapsto>
                       HS (s_text py (or_cells [rget first ''Shipping Name'',
                                                 rget first ''Billing Name'',
                                                 rget first ''Name''])))
                else h2);
          h4 = (case h3 ''invoice_date'' of
                  None \<Rightarrow> h3
                | Some v \<Rightarrow>
                    h3(''invoice_date'' \<mapsto>
                         HS (takeWhile (\<lambda>c. c \<noteq> CHR '' '') (strip (hv_str py v)))));
          h5 = h4(''financial_status'' \<mapsto>
                    HS (clean_status
                          (case h4 ''financial_status'' of
                             None \<Rightarrow> Some ''Pending''
                           | Some v \<Rightarrow> Some (hv_str py v))))
      in h5(''vendor'' \<mapsto>
              HS (clean_vendor
                    (case h5 ''vendor'' of
                       Some v \<Rightarrow> hv_str py v
                     | None \<Rightarrow>
                         (case rget first ''Vendor'' of
                            None \<Rightarrow> []
                          | Some c \<Rightarrow> str_cell py c)))))"

text \<open>
  The line items of a group: the rows that are kept, combined by key when asked to and when
  there are any.
\<close>

definition group_items :: "pybuiltins \<Rightarrow> row list \<Rightarrow> bool \<Rightarrow> item list" where
  "group_items py g combine =
     (let its0 = raw_items py g
      in if combine \<and> its0 \<noteq> [] then aggregate_items its0 else its0)"

text \<open>
  \<open>_header_from_group\<close>, whole: the line items and the money fields that depend on them;
  \<open>None\<close> stands for the \<open>IndexError\<close> of \<open>g.iloc[0]\<close> on a group without rows.
\<close>

definition header_from_group ::
  "pybuiltins \<Rightarrow> row list \<Rightarrow> bool \<Rightarrow> (header \<times> item list) option" where
  "header_from_group py g combine =
     (case g of
        [] \<Rightarrow> None
      | first # rest \<Rightarrow>
          let h6 = header_core py first;
              its = group_items py g combine;
              h7 = (if \<not> truthy_hval (h6 ''subtotal'')
                    then h6(''subtotal'' \<mapsto> HF (sum_list (map total_amount its))) else h6);
              h8 = (if \<not> truthy_hval (h7 ''discount_amount'')
                    then h7(''discount_amount'' \<mapsto>
                              HF (f_num py (rget first ''Lineitem discount'')))
                    else h7);
              h9 = (if \<not> truthy_hval (h8 ''total'')
                    then h8(''total'' \<mapsto>
                              HF (max (hv_num (h8 ''subtotal'') - hv_num (h8 ''discount_amount'')) 0))
                    else h8)
          in Some (h9, its))"

subsection \<open>The invoice store\<close>

record sale_row =
  sid :: int
  row_fields :: header
  sale_items :: "(nat \<times> item) list"

record app_db =
  sales :: "sale_row list"
  sequences :: "string \<rightharpoonup> int"

text \<open>The columns of the table \<open>sales\<close> that \<open>_ensure_schema\<close> creates.\<close>

definition sales_columns :: "string list" where
  "sales_columns =
     [''id'', ''created_at'', ''invoice_date'', ''invoice_no'', ''customer'', ''email'',
      ''shipping_method'', ''branch_location'', ''financial_status'', ''discount_code'',
      ''discount_amount'', ''billing_name'', ''billing_street'', ''billing_address1'',
      ''billing_address2'', ''billing_city'', ''billing_zip'', ''billing_phone'',
      ''payment_method'', ''vendor'', ''payment_id'', ''payment_reference'', ''subtotal'',
      ''total'', ''notes'', ''currency'', ''shipping_cost'', ''taxes'', ''paid_at'',
      ''fulfilled_at'', ''fulfillment_status'', ''accepts_marketing'', ''shipping_name'',
      ''shipping_street'', ''shipping_address1'', ''shipping_address2'', ''shipping_city'',
      ''shipping_zip'', ''shipping_phone'', ''billing_company'', ''billing_province'',
      ''billing_country'', ''shipping_company'', ''shipping_province'',
      ''shipping_country'', ''cancelled_at'', ''refunded_amount'', ''outstanding_balance'',
      ''employee'', ''location'', ''device_id'', ''tags'', ''risk_level'', ''source'',
      ''receipt_number'', ''duties'', ''billing_province_name'',
      ''shipping_province_name'', ''payment_terms_name'', ''next_payment_due_at'',
      ''extra_json'']"

definition next_sid :: "app_db \<Rightarrow> int" where
  "next_sid db = fold (\<lambda>r m. max (sid r) m) (sales db) 0 + 1"

text \<open>\<open>SELECT id ... FROM sales WHERE invoice_no = ?\<close> with \<open>fetchone()\<close>.\<close>

definition select_sale :: "string \<Rightarrow> app_db \<Rightarrow> sale_row option" where
  "select_sale ino db = find (\<lambda>r. row_fields r ''invoice_no'' = Some (HS ino)) (sales db)"

text \<open>
  \<open>_save_order\<close>: the header restricted to the table's columns is written over the row of
  the same invoice number, whose line items are replaced, or inserted as a new row. Columns
  that an \<open>INSERT\<close> does not name are left out of \<open>row_fields\<close>.
\<close>

definition save_order :: "pybuiltins \<Rightarrow> header \<Rightarrow> item list \<Rightarrow> app_db \<Rightarrow> int \<times> app_db" where
  "save_order py hdr its db =
     (let clean_header = hdr |` set sales_columns;
          numbered = zip [1 ..< Suc (length its)] its;
          found = (case clean_header ''invoice_no'' of
                     None \<Rightarrow> None
                   | Some v \<Rightarrow> select_sale (hv_str py v) db)
      in case found of
           Some row \<Rightarrow>
             (sid row,
              db\<lparr>sales := map (\<lambda>r. if sid r = sid row
                                     then r\<lparr>row_fields := row_fields r ++ clean_header,
                                            sale_items := numbered\<rparr>
                                     else r) (sales db)\<rparr>)
         | None \<Rightarrow>
             (next_sid db,
              db\<lparr>sales := sales db @
                   [\<lparr>sid = next_sid db, row_fields = clean_header, sale_items = numbered\<rparr>]\<rparr>))"

subsection \<open>Document numbers\<close>

text \<open>\<open>str\<close> on an integer, \<open>str.zfill\<close>, and \<open>strftime("%Y%m")\<close> on a year and a month.\<close>

fun str_nat :: "nat \<Rightarrow> string" where
  "str_nat n =
     (if n < 10 then [''0123456789'' ! n]
      else str_nat (n div 10) @ [''0123456789'' ! (n mod 10)])"

declare str_nat.simps [simp del]

definition str_int :: "int \<Rightarrow> string" where
  "str_int i = (if i < 0 then CHR ''-'' # str_nat (nat (- i)) else str_nat (nat i))"

definition zfill :: "int \<Rightarrow> string \<Rightarrow> string" where
  "zfill w s =
     (let fill = replicate (nat (w - int (length s))) (CHR ''0'')
      in case s of
           [] \<Rightarrow> fill
         | c # r \<Rightarrow> if c = CHR ''+'' \<or> c = CHR ''-'' then c # fill @ r else fill @ s)"

definition yyyymm :: "nat \<times> nat \<Rightarrow> string" where
  "yyyymm when = str_nat (fst when) @ zfill 2 (str_nat (snd when))"

text \<open>
  \<open>_next_doc_no\<close>. \<open>prefix\<close> and \<open>pad\<close> are \<open>DOC_PREFIX\<close> and \<open>DOC_PAD\<close>; \<open>when\<close> is the
  year and month of the clock.
\<close>

definition next_doc_no :: "string \<Rightarrow> int \<Rightarrow> nat \<times> nat \<Rightarrow> app_db \<Rightarrow> string \<times> app_db" where
  "next_doc_no prefix pad when db =
     (let seq_name = prefix @ ''-'' @ yyyymm when;
          seq = (case sequences db seq_name of None \<Rightarrow> 1 | Some v \<Rightarrow> v + 1)
      in (prefix @ ''-'' @ yyyymm when @ ''-'' @ zfill pad (str_int seq),
          db\<lparr>sequences := (sequences db)(seq_name \<mapsto> seq)\<rparr>))"

text \<open>The document numbers of \<open>n\<close> calls in a row, with the store after the last.\<close>

fun issue_docs :: "string \<Rightarrow> int \<Rightarrow> nat \<times> nat \<Rightarrow> nat \<Rightarrow> app_db \<Rightarrow> string list \<times> app_db" where
  "issue_docs prefix pad when 0 db = ([], db)"
| "issue_docs prefix pad when (Suc n) db =
     (let (d, db') = next_doc_no prefix pad when db;
          (ds, db'') = issue_docs prefix pad when n db'
      in (d # ds, db''))"

subsection \<open>The import run\<close>

datatype audit_detail = Reason string | SaleId int | ErrorText string

record audit_entry =
  action :: string
  audit_invoice_no :: string
  audit_document_no :: "string option"
  audit_user :: "string option"
  audit_public_ip :: string
  audit_details :: audit_detail

record import_env =
  builtins :: pybuiltins
  doc_prefix :: string
  doc_pad :: int
  today :: "nat \<times> nat"
  user_str :: "string option"
  public_ip :: string
  combine_items :: bool

record import_state =
  store :: app_db
  audit_log :: "audit_entry list"
  imported :: nat
  updated :: nat
  skipped :: nat
  issues :: "(string \<times> string) list"

text \<open>\<open>header.get(k, "")\<close> read as text.\<close>

definition hdr_text :: "pybuiltins \<Rightarrow> header \<Rightarrow> string \<Rightarrow> string" where
  "hdr_text py h k = (case h k of None \<Rightarrow> [] | Some v \<Rightarrow> hv_str py v)"

definition quoted :: "string \<Rightarrow> string" where
  "quoted s = CHR 0x27 # s @ [CHR 0x27]"

definition skip_group ::
  "import_env \<Rightarrow> string \<Rightarrow> string \<Rightarrow> string \<Rightarrow> string \<Rightarrow> import_state \<Rightarrow> import_state" where
  "skip_group env gkey act ino msg st =
     st\<lparr>skipped := skipped st + 1,
        issues := issues st @ [(gkey, msg)],
        audit_log := audit_log st @
          [\<lparr>action = act, audit_invoice_no = ino, audit_document_no = None,
            audit_user = user_str env, audit_public_ip = public_ip env,
            audit_details = Reason msg\<rparr>]\<rparr>"

text \<open>The body of the loop over the groups in \<open>render\<close>.\<close>

definition process_group :: "import_env \<Rightarrow> cell \<times> row list \<Rightarrow> import_state \<Rightarrow> import_state" where
  "process_group env grp st =
     (let gkey = str_cell (builtins env) (fst grp)
      in case header_from_group (builtins env) (snd grp) (combine_items env) of
           None \<Rightarrow>
             st\<lparr>skipped := skipped st + 1,
                issues := issues st @ [(gkey, ''single positional indexer is out-of-bounds'')],
                audit_log := audit_log st @
                  [\<lparr>action = ''error'', audit_invoice_no = gkey, audit_document_no = None,
                    audit_user = user_str env, audit_public_ip = public_ip env,
                    audit_details = ErrorText ''single positional indexer is out-of-bounds''\<rparr>]\<rparr>
         | Some (header, its) \<Rightarrow>
             let status = hdr_text (builtins env) header ''financial_status'';
                 vendor = hdr_text (builtins env) header ''vendor'';
                 ino = hdr_text (builtins env) header ''invoice_no''
             in if status \<notin> ALLOWED_STATUS
                then skip_group env gkey ''skip_invalid_status'' ino
                       (''Invalid financial_status '' @ quoted status @ '' after normalization'') st
                else if vendor \<notin> ALLOWED_VENDORS
                then skip_group env gkey ''skip_invalid_vendor'' ino
                       (''Invalid vendor '' @ quoted vendor @ '' after normalization'') st
                else if ino = []
                then skip_group env gkey ''skip_missing_invoice_no'' []
                       ''Missing invoice_no after normalization'' st
                else
                  let numbered =
                        (if \<not> truthy_hval (header ''receipt_number'')
                         then (let r = next_doc_no (doc_prefix env) (doc_pad env) (today env) (store st)
                               in (header(''receipt_number'' \<mapsto> HS (fst r)), snd r))
                         else (header, store st));
                      header1 = fst numbered;
                      db1 = snd numbered;
                      existing = select_sale ino db1;
                      header2 =
                        (case existing of
                           None \<Rightarrow> header1
                         | Some row \<Rightarrow>
                             if truthy_hval (row_fields row ''receipt_number'')
                             then header1(''receipt_number'' := row_fields row ''receipt_number'')
                             else header1);
                      saved = save_order (builtins env) header2 its db1;
                      entry =
                        \<lparr>action = (if existing \<noteq> None then ''update'' else ''insert''),
                         audit_invoice_no = ino,
                         audit_document_no = Some (hdr_text (builtins env) header2 ''receipt_number''),
                         audit_user = user_str env, audit_public_ip = public_ip env,
                         audit_details = SaleId (fst saved)\<rparr>
                  in if existing \<noteq> None
                     then st\<lparr>store := snd saved, updated := updated st + 1,
                             audit_log := audit_log st @ [entry]\<rparr>
                     else st\<lparr>store := snd saved, imported := imported st + 1,
                             audit_log := audit_log st @ [entry]\<rparr>)"






subsection \<open>Notions used in the statements\<close>

text \<open>
  The header field \<open>k\<close> of a group as the gates of the loop read it. The fields read by
  the gates come from the first row of the group and do not depend on its line items.
\<close>

definition normalized :: "pybuiltins \<Rightarrow> row list \<Rightarrow> string \<Rightarrow> string" where
  "normalized p g k =
     (case g of [] \<Rightarrow> [] | first # rest \<Rightarrow> hdr_text p (header_core p first) k)"

text \<open>A group passes the validation gates of the loop: status, vendor, invoice number.\<close>

definition valid_group :: "pybuiltins \<Rightarrow> row list \<Rightarrow> bool" where
  "valid_group p g =
     (g \<noteq> []
      \<and> normalized p g ''financial_status'' \<in> ALLOWED_STATUS
      \<and> normalized p g ''vendor'' \<in> ALLOWED_VENDORS
      \<and> normalized p g ''invoice_no'' \<noteq> [])"

text \<open>The invoice numbers held by the store, and the uniqueness of its primary key.\<close>

definition invoice_nos :: "app_db \<Rightarrow> string set" where
  "invoice_nos db = {ino. \<exists>r \<in> set (sales db). row_fields r ''invoice_no'' = Some (HS ino)}"

definition unique_ids :: "app_db \<Rightarrow> bool" where
  "unique_ids db = distinct (map sid (sales db))"


subsection \<open>Example inputs of the reconciler\<close>

definition empty_db :: app_db where
  "empty_db = \<lparr>sales = [], sequences = Map.empty\<rparr>"

text \<open>
  Conversions for the examples: every number prints as \<open>0\<close> and no text parses as a
  number. The examples only use numbers in numeric columns and texts in text columns.
\<close>

definition py0 :: pybuiltins where
  "py0 = \<lparr>str_of_float = (\<lambda>r. ''0''), float_of_str = (\<lambda>t. None)\<rparr>"

definition row_soap :: row where
  "row_soap =
     [(''Name'', Str ''1001''), (''Financial Status'', Str ''Unpaid''),
      (''Vendor'', Str ''Swiss Proli Inc''),
      (''Lineitem quantity'', Num 2), (''Lineitem name'', Str ''Soap''),
      (''Lineitem price'', Num 5), (''Lineitem sku'', Str ''S1'')]"


definition row_bad :: row where
  "row_bad =
     [(''Name'', Str ''1002''), (''Financial Status'', Str ''garbage-value''),
      (''Vendor'', Str ''Takeout Store''),
      (''Lineitem quantity'', Num 1), (''Lineitem name'', Str ''Comb''),
      (''Lineitem price'', Num 3), (''Lineitem sku'', Str ''C1'')]"


definition env0 :: import_env where
  "env0 =
     \<lparr>builtins = py0, doc_prefix = ''INV'', doc_pad = 4, today = (2025, 1),
      user_str = None, public_ip = ''203.0.113.7'', combine_items = True\<rparr>"

definition st0 :: import_state where
  "st0 = \<lparr>store = empty_db, audit_log = [], imported = 0, updated = 0, skipped = 0,
          issues = []\<rparr>"




section \<open>Properties of auth.py\<close>

lemma find_map_same:
  "(\<And>x. P (f x) = P x) \<Longrightarrow> find P (map f xs) = map_option f (find P xs)"
  by (induction xs) auto

lemma find_append_Some:
  "find P xs = Some r \<Longrightarrow> find P (xs @ ys) = Some r"
  by (induction xs) (auto split: if_splits)

lemma find_fresh_append:
  "\<forall>x \<in> set xs. \<not> P x \<Longrightarrow> P y \<Longrightarrow> find P (xs @ [y]) = Some y"
  by (induction xs) auto




lemma length_kdf32: "length (kdf32 p s) = 32"
  by (simp add: kdf32_def)

lemma salt7_facts: "length salt7 = 16" "salt7 \<noteq> zero_salt" "salt7 \<noteq> []"
  by (simp_all add: salt7_def zero_salt_def)


lemma request_snd:
  "snd (request_password_change send tk now l app lnk db)
     = (case get_user_by_login l db of
          None \<Rightarrow> db
        | Some (i, em, un, act) \<Rightarrow>
            if act then snd (create_token tk now i ''password_change'' 15 db) else db)"
  by (simp add: request_password_change_def Let_def split: option.split prod.split)

lemma request_fst:
  "fst (request_password_change send tok now login app lnk db)
     = (case get_user_by_login login db of
          None \<Rightarrow> (True, generic_msg)
        | Some (i, em, un, act) \<Rightarrow>
            if \<not> act then (True, generic_msg)
            else (case send em (reset_subject app) (reset_body app em tok (reset_link lnk tok)) of
                    Some e \<Rightarrow> (False, ''Failed to send token email: '' @ e)
                  | None \<Rightarrow> (True, generic_msg)))"
  by (simp add: request_password_change_def create_token_def Let_def
           split: option.split prod.split)

subsection \<open>C1: legacy plaintext credentials are migrated once\<close>





subsection \<open>C2: inactive accounts never verify; salted accounts verify by hash\<close>

lemma sel_hashed: "select_user ''a'' (hashed_db act) = Some (hashed_user act)"
  by (simp add: select_user_def hashed_db_def hashed_user_def)

text \<open>
  C2. When the login selects an account whose activation flag is falsy, \<open>check_password\<close>
  returns false for every password and writes nothing. When it selects an active account
  with a salted credential (the salt read back is neither of the two unsalted sentinels of
  the code, empty or sixteen zero bytes), it returns true exactly when the stored bytes are
  the key derived from the supplied password with the stored salt, and writes nothing.
  The derived key has 32 bytes, as PBKDF2-HMAC-SHA256 gives.
\<close>

theorem inactive_fails_active_iff_hash:
  "(select_user login db = Some row \<and> \<not> truthy_int (is_active row)
      \<longrightarrow> check_password H new_salt login password db = (False, db))
   \<and> (select_user login db = Some row \<and> truthy_int (is_active row)
        \<and> to_bytes (salt row) \<noteq> [] \<and> to_bytes (salt row) \<noteq> zero_salt
        \<and> (\<forall>p s. length (H p s) = 32)
      \<longrightarrow> check_password H new_salt login password db
            = (to_bytes (password_hash row) = H (encode_utf8 password) (to_bytes (salt row)), db))"
proof (intro conjI impI)
  assume "select_user login db = Some row \<and> \<not> truthy_int (is_active row)"
  then show "check_password H new_salt login password db = (False, db)"
    by (simp add: check_password_def)
next
  assume a: "select_user login db = Some row \<and> truthy_int (is_active row)
        \<and> to_bytes (salt row) \<noteq> [] \<and> to_bytes (salt row) \<noteq> zero_salt
        \<and> (\<forall>p s. length (H p s) = 32)"
  then have hne: "H (encode_utf8 password) (to_bytes (salt row)) \<noteq> []"
    by (metis length_0_conv zero_neq_numeral)
  show "check_password H new_salt login password db
            = (to_bytes (password_hash row) = H (encode_utf8 password) (to_bytes (salt row)), db)"
  proof (cases "to_bytes (password_hash row) = []")
    case True
    with a hne show ?thesis
      by (simp add: check_password_def hash_password_def to_bytes_def)
  next
    case False
    with a show ?thesis
      by (simp add: check_password_def hash_password_def Let_def)
         (simp add: to_bytes_def)
  qed
qed

theorem inactive_fails_active_iff_hash_witness:
  "check_password kdf32 salt7 ''a'' ''hunter22'' (hashed_db (Some 0)) = (False, hashed_db (Some 0))
   \<and> check_password kdf32 salt7 ''a'' ''hunter22'' (hashed_db (Some 1)) = (True, hashed_db (Some 1))
   \<and> check_password kdf32 salt7 ''a'' ''hunter23'' (hashed_db (Some 1)) = (False, hashed_db (Some 1))"
proof -
  have s0: "select_user ''a'' (hashed_db (Some 0)) = Some (hashed_user (Some 0))
            \<and> \<not> truthy_int (is_active (hashed_user (Some 0)))"
    by (simp add: sel_hashed) (simp add: hashed_user_def truthy_int_def)
  have sl: "to_bytes (salt (hashed_user (Some 1))) = salt7"
    by (simp add: hashed_user_def to_bytes_def)
  have ph: "to_bytes (password_hash (hashed_user (Some 1))) = kdf32 (encode_utf8 ''hunter22'') salt7"
    by (simp add: hashed_user_def to_bytes_def)
  have s1: "select_user ''a'' (hashed_db (Some 1)) = Some (hashed_user (Some 1))
            \<and> truthy_int (is_active (hashed_user (Some 1)))
            \<and> to_bytes (salt (hashed_user (Some 1))) \<noteq> []
            \<and> to_bytes (salt (hashed_user (Some 1))) \<noteq> zero_salt
            \<and> (\<forall>p s. length (kdf32 p s) = 32)"
    by (simp add: sel_hashed sl salt7_facts length_kdf32) (simp add: hashed_user_def truthy_int_def)
  have ne: "kdf32 (encode_utf8 ''hunter22'') salt7 \<noteq> kdf32 (encode_utf8 ''hunter23'') salt7"
    by (simp add: kdf32_def salt7_def encode_utf8_def utf8_char_def)
  from inactive_fails_active_iff_hash [of "''a''" "hashed_db (Some 0)" "hashed_user (Some 0)" kdf32 salt7 "''hunter22''"] s0
  have r0: "check_password kdf32 salt7 ''a'' ''hunter22'' (hashed_db (Some 0)) = (False, hashed_db (Some 0))"
    by blast
  from inactive_fails_active_iff_hash [of "''a''" "hashed_db (Some 1)" "hashed_user (Some 1)" kdf32 salt7 "''hunter22''"] s1
  have r1: "check_password kdf32 salt7 ''a'' ''hunter22'' (hashed_db (Some 1)) = (True, hashed_db (Some 1))"
    by (simp add: sl ph)
  from inactive_fails_active_iff_hash [of "''a''" "hashed_db (Some 1)" "hashed_user (Some 1)" kdf32 salt7 "''hunter23''"] s1 ne
  have r2: "check_password kdf32 salt7 ''a'' ''hunter23'' (hashed_db (Some 1)) = (False, hashed_db (Some 1))"
    by (simp add: sl ph)
  from r0 r1 r2 show ?thesis by simp
qed

subsection \<open>C3: a token is redeemed once, then refused as already used\<close>

lemma consumed_update_credential:
  "consumed tok (update_credential h s i db) = consumed tok db"
  by (simp add: consumed_def update_credential_def)

lemma consumed_users_update:
  "consumed tok (db\<lparr>users := us\<rparr>) = consumed tok db"
  by (simp add: consumed_def)

lemma consumed_append:
  "consumed tok db \<Longrightarrow> consumed tok (db\<lparr>password_tokens := password_tokens db @ ys\<rparr>)"
  by (auto simp: consumed_def find_append_Some)

lemma consumed_mark_used:
  assumes "consumed tok db"
  shows "consumed tok (mark_used i now db)"
proof -
  let ?f = "\<lambda>t. if tid t = i then t\<lparr>used_at := Some (Stamp (now div 1000000))\<rparr> else t"
  have "find (\<lambda>t. token t = tok) (map ?f (password_tokens db))
          = map_option ?f (find (\<lambda>t. token t = tok) (password_tokens db))"
    by (rule find_map_same) simp
  moreover from assms obtain row where
    r: "find (\<lambda>t. token t = tok) (password_tokens db) = Some row"
       "purpose row = ''password_change''" "used_at row \<noteq> None"
    by (auto simp: consumed_def)
  ultimately have "find (\<lambda>t. token t = tok) (password_tokens (mark_used i now db)) = Some (?f row)"
    by (simp add: mark_used_def)
  moreover have "purpose (?f row) = ''password_change''" "used_at (?f row) \<noteq> None"
    using r by auto
  ultimately show ?thesis
    unfolding consumed_def by blast
qed

lemma consumed_check_password: "consumed tok db \<Longrightarrow> consumed tok (snd (check_password H s l p db))"
  by (simp add: check_password_def Let_def consumed_update_credential split: option.split)

lemma consumed_set_password:
  "consumed tok db \<Longrightarrow> set_password H s i p db = Some db' \<Longrightarrow> consumed tok db'"
  by (auto simp: set_password_def consumed_update_credential split: if_splits)

lemma consumed_ensure_user:
  "consumed tok db \<Longrightarrow> consumed tok (snd (ensure_user H rp s em p un rl a db))"
  by (simp add: ensure_user_def Let_def consumed_users_update split: option.split)

lemma consumed_create_token:
  "consumed tok db \<Longrightarrow> consumed tok (snd (create_token tk now u pu m db))"
  by (simp add: create_token_def consumed_append)

lemma consumed_request:
  "consumed tok db \<Longrightarrow> consumed tok (snd (request_password_change send tk now l app lnk db))"
  by (simp add: request_snd consumed_create_token split: option.split prod.split)

lemma consumed_verify:
  "consumed tok db \<Longrightarrow> consumed tok (snd (verify_token_and_change_password H s now tk p db))"
  by (simp add: verify_token_and_change_password_def consumed_mark_used
                consumed_update_credential split: option.split stamp.split)

lemma consumed_apply_op:
  assumes "consumed tok db"
  shows "consumed tok (apply_op H send op db)"
proof (cases op)
  case (OpSetPassword s i p)
  then show ?thesis
    using assms consumed_set_password [of tok db H s i p] by (auto split: option.split)
qed (simp_all add: assms consumed_check_password consumed_ensure_user consumed_create_token
                   consumed_request consumed_verify)

lemma consumed_run_ops: "consumed tok db \<Longrightarrow> consumed tok (run_ops H send ops db)"
  unfolding run_ops_def by (induction ops arbitrary: db) (simp_all add: consumed_apply_op)

lemma consumed_already_used:
  "consumed tok db \<Longrightarrow> tok \<noteq> [] \<Longrightarrow> pw \<noteq> [] \<Longrightarrow>
   verify_token_and_change_password H s now tok pw db
     = ((False, ''This token has already been used.''), db)"
  by (auto simp: consumed_def verify_token_and_change_password_def)

text \<open>
  C3. Let the token text select a password-change token row that carries no consumption
  timestamp and whose expiry has not passed, and let the new password have at least 8
  characters. Then the redemption succeeds; the committed store is the old one with the new
  salt and derived key written to the owning account and the consumption timestamp written
  to the token row, both in the one commit. After that, whatever calls of \<open>auth.py\<close> are
  made in between and whatever the clock shows, every redemption of the same token text
  with a non-empty password is refused with the already-used message and changes nothing.
\<close>

theorem redeem_once_then_already_used:
  assumes row: "find (\<lambda>t. token t = tok) (password_tokens db) = Some row"
    and purp: "purpose row = ''password_change''"
    and fresh: "used_at row = None"
    and exp: "expires_at row = Stamp e" "now \<le> e * 1000000"
    and tok: "tok \<noteq> []"
    and len: "8 \<le> length new_password"
  shows "(let r = verify_token_and_change_password H new_salt now tok new_password db;
              db' = snd r
          in fst r = (True, ''Password changed successfully.'')
             \<and> db' = mark_used (tid row) now
                      (update_credential (H (encode_utf8 new_password) new_salt) new_salt
                         (user_id row) db)
             \<and> (\<forall>u \<in> set (users db'). uid u = user_id row \<longrightarrow>
                   salt u = SqlBlob new_salt
                   \<and> password_hash u = SqlBlob (H (encode_utf8 new_password) new_salt))
             \<and> find (\<lambda>t. token t = tok) (password_tokens db')
                  = Some (row\<lparr>used_at := Some (Stamp (now div 1000000))\<rparr>)
             \<and> (\<forall>ops s2 now2 pw2. pw2 \<noteq> [] \<longrightarrow>
                   verify_token_and_change_password H s2 now2 tok pw2 (run_ops H send ops db')
                     = ((False, ''This token has already been used.''), run_ops H send ops db')))"
proof -
  let ?db' = "mark_used (tid row) now
                (update_credential (H (encode_utf8 new_password) new_salt) new_salt (user_id row) db)"
  have ne: "new_password \<noteq> []" using len by auto
  have r: "verify_token_and_change_password H new_salt now tok new_password db
             = ((True, ''Password changed successfully.''), ?db')"
    using row purp fresh exp tok len ne
    by (simp add: verify_token_and_change_password_def)
  have users: "\<forall>u \<in> set (users ?db'). uid u = user_id row \<longrightarrow>
                   salt u = SqlBlob new_salt
                   \<and> password_hash u = SqlBlob (H (encode_utf8 new_password) new_salt)"
    by (auto simp: mark_used_def update_credential_def)
  have tk: "password_tokens (update_credential (H (encode_utf8 new_password) new_salt) new_salt
              (user_id row) db) = password_tokens db"
    by (simp add: update_credential_def)
  let ?f = "\<lambda>t. if tid t = tid row then t\<lparr>used_at := Some (Stamp (now div 1000000))\<rparr> else t"
  have "find (\<lambda>t. token t = tok) (map ?f (password_tokens db))
          = map_option ?f (find (\<lambda>t. token t = tok) (password_tokens db))"
    by (rule find_map_same) simp
  with row have fnd: "find (\<lambda>t. token t = tok) (password_tokens ?db')
                  = Some (row\<lparr>used_at := Some (Stamp (now div 1000000))\<rparr>)"
    by (simp add: mark_used_def tk)
  have c: "consumed tok ?db'"
    using fnd purp by (simp add: consumed_def)
  have later: "verify_token_and_change_password H s2 now2 tok pw2 (run_ops H send ops ?db')
                 = ((False, ''This token has already been used.''), run_ops H send ops ?db')"
    if "pw2 \<noteq> []" for ops s2 now2 pw2
    using consumed_already_used [OF consumed_run_ops [OF c] tok that] .
  show ?thesis
    unfolding Let_def r fst_conv snd_conv
    using users fnd later by blast
qed

lemma find_token_db:
  "find (\<lambda>t. token t = ''tok-abc'') (password_tokens token_db)
     = Some \<lparr>tid = 1, user_id = 1, token = ''tok-abc'', purpose = ''password_change'',
             expires_at = Stamp 900, used_at = None\<rparr>"
  by (simp add: token_db_def create_token_def hashed_db_def next_tid_def)

theorem redeem_once_then_already_used_witness:
  "(let r = verify_token_and_change_password kdf32 salt7 5000000 ''tok-abc'' ''new-password'' token_db;
        db' = snd r
    in fst r = (True, ''Password changed successfully.'')
       \<and> db' = mark_used 1 5000000
                (update_credential (kdf32 (encode_utf8 ''new-password'') salt7) salt7 1 token_db)
       \<and> (\<forall>u \<in> set (users db'). uid u = 1 \<longrightarrow>
             salt u = SqlBlob salt7
             \<and> password_hash u = SqlBlob (kdf32 (encode_utf8 ''new-password'') salt7))
       \<and> find (\<lambda>t. token t = ''tok-abc'') (password_tokens db')
            = Some \<lparr>tid = 1, user_id = 1, token = ''tok-abc'', purpose = ''password_change'',
                    expires_at = Stamp 900, used_at = Some (Stamp 5)\<rparr>
       \<and> (\<forall>ops s2 now2 pw2. pw2 \<noteq> [] \<longrightarrow>
             verify_token_and_change_password kdf32 s2 now2 ''tok-abc'' pw2 (run_ops kdf32 mail_ok ops db')
               = ((False, ''This token has already been used.''), run_ops kdf32 mail_ok ops db')))"
  using redeem_once_then_already_used [OF find_token_db, of 900 5000000 "''new-password''" kdf32 salt7 mail_ok]
  by simp

subsection \<open>C4: the expiry boundary of a 15-minute token\<close>

lemma find_issued:
  assumes "\<forall>t \<in> set (password_tokens db0). token t \<noteq> tok"
  shows "find (\<lambda>t. token t = tok)
           (password_tokens (snd (create_token tok t0 u purp m db0)))
         = Some \<lparr>tid = next_tid db0, user_id = u, token = tok, purpose = purp,
                 expires_at = Stamp ((t0 + m * 60000000) div 1000000), used_at = None\<rparr>"
  using assms by (simp add: create_token_def find_fresh_append)

text \<open>
  C4 (as the code has it). A token is issued at clock \<open>t0\<close> (microseconds) with 15 minutes
  of validity under a text no earlier row carries, and then redeemed at clock \<open>now\<close> with a
  non-empty password. The stored expiry is \<open>t0\<close> plus 15 minutes cut down to the whole
  second. A redemption strictly after \<open>t0\<close> plus 15 minutes, and indeed any redemption
  strictly after the stored expiry, is refused as expired. A redemption with a password of
  at least 8 characters at or before the stored expiry succeeds; this covers every attempt
  made at least one second before \<open>t0\<close> plus 15 minutes.
\<close>

theorem expiry_boundary:
  assumes fresh: "\<forall>t \<in> set (password_tokens db0). token t \<noteq> tok"
    and tok: "tok \<noteq> []"
    and pw: "new_password \<noteq> []"
  shows "(let db1 = snd (create_token tok t0 u ''password_change'' 15 db0);
              expiry = ((t0 + 15 * 60000000) div 1000000) * 1000000;
              r = fst (verify_token_and_change_password H new_salt now tok new_password db1)
          in (t0 + 15 * 60000000 < now \<longrightarrow> r = (False, ''This token has expired.''))
             \<and> (expiry < now \<longrightarrow> r = (False, ''This token has expired.''))
             \<and> (8 \<le> length new_password \<and> now \<le> expiry
                   \<longrightarrow> r = (True, ''Password changed successfully.''))
             \<and> (8 \<le> length new_password \<and> now + 1000000 \<le> t0 + 15 * 60000000
                   \<longrightarrow> r = (True, ''Password changed successfully.'')))"
proof -
  let ?e = "(t0 + 15 * 60000000) div 1000000"
  have le: "?e * 1000000 \<le> t0 + 15 * 60000000" by simp
  have gt: "t0 + 15 * 60000000 < ?e * 1000000 + 1000000"
    by (metis (no_types) add.commute mult.commute zero_less_numeral
          pos_mod_bound mult_div_mod_eq add_strict_left_mono)
  have v: "fst (verify_token_and_change_password H new_salt now tok new_password
                 (snd (create_token tok t0 u ''password_change'' 15 db0)))
           = (if ?e * 1000000 < now then (False, ''This token has expired.'')
              else if length new_password < 8
              then (False, ''Password must be at least 8 characters.'')
              else (True, ''Password changed successfully.''))"
    using tok pw by (simp add: verify_token_and_change_password_def find_issued [OF fresh])
  show ?thesis
    unfolding Let_def v using le gt by auto
qed

lemma hashed_db_no_tokens: "\<forall>t \<in> set (password_tokens (hashed_db (Some 1))). token t \<noteq> ''tok-abc''"
  by (simp add: hashed_db_def)

theorem expiry_boundary_witness:
  "fst (verify_token_and_change_password kdf32 salt7 901000000 ''tok-abc'' ''new-password''
          (snd (create_token ''tok-abc'' 900000 1 ''password_change'' 15 (hashed_db (Some 1)))))
     = (False, ''This token has expired.'')
   \<and> fst (verify_token_and_change_password kdf32 salt7 900000000 ''tok-abc'' ''new-password''
          (snd (create_token ''tok-abc'' 900000 1 ''password_change'' 15 (hashed_db (Some 1)))))
     = (True, ''Password changed successfully.'')
   \<and> fst (verify_token_and_change_password kdf32 salt7 5000000 ''tok-abc'' ''new-password''
          (snd (create_token ''tok-abc'' 900000 1 ''password_change'' 15 (hashed_db (Some 1)))))
     = (True, ''Password changed successfully.'')"
proof -
  have t: "''tok-abc'' \<noteq> []" and p: "''new-password'' \<noteq> []" by simp_all
  note th = expiry_boundary [OF hashed_db_no_tokens t p, of 900000 1 kdf32 salt7]
  from th [of 901000000] th [of 900000000] th [of 5000000]
  show ?thesis by (simp add: Let_def)
qed

text \<open>
  The statement of C4 as written fails below the whole second: a token issued 0.9 s after
  the epoch expires, as stored, at second 900; an otherwise valid redemption at 900.5 s,
  strictly before issuance plus 15 minutes (900.9 s), is refused as expired.
\<close>

theorem expiry_boundary_counterexample:
  "(900500000 :: int) < 900000 + 15 * 60000000
   \<and> 8 \<le> length ''new-password''
   \<and> fst (verify_token_and_change_password kdf32 salt7 900500000 ''tok-abc'' ''new-password''
          (snd (create_token ''tok-abc'' 900000 1 ''password_change'' 15 (hashed_db (Some 1)))))
     = (False, ''This token has expired.'')"
  by (simp add: verify_token_and_change_password_def create_token_def hashed_db_def)

subsection \<open>C5: a reset request answers the same way for every identifier\<close>

text \<open>
  C5. When the mail transport does not fail, \<open>request_password_change\<close> returns the one
  generic success pair, so the results of any two runs are equal, whether or not the
  identifier selects an active account. When the identifier selects no account or an
  inactive one, the store is left as it is and no token row exists that did not before.
  When it selects an active account, the store gains exactly one row, appended to the token
  table: it belongs to that account, carries the drawn token text and the purpose
  \<open>password_change\<close>, no consumption timestamp, and as expiry the clock plus 15 minutes in
  the whole-second resolution of the stored timestamp.
\<close>

theorem reset_request_generic:
  "((\<forall>rcpt subj body. send rcpt subj body = None) \<longrightarrow>
      fst (request_password_change send tok1 now1 login1 app1 lnk1 db1) = (True, generic_msg)
      \<and> fst (request_password_change send tok1 now1 login1 app1 lnk1 db1)
          = fst (request_password_change send tok2 now2 login2 app2 lnk2 db2))
   \<and> (select_user login db = None
        \<or> (\<exists>row. select_user login db = Some row \<and> \<not> truthy_int (is_active row)) \<longrightarrow>
      snd (request_password_change send tok now login app lnk db) = db)
   \<and> (\<forall>row. select_user login db = Some row \<and> truthy_int (is_active row) \<longrightarrow>
      snd (request_password_change send tok now login app lnk db)
        = db\<lparr>password_tokens := password_tokens db @
               [\<lparr>tid = next_tid db, user_id = uid row, token = tok,
                 purpose = ''password_change'',
                 expires_at = Stamp ((now + 15 * 60000000) div 1000000),
                 used_at = None\<rparr>]\<rparr>)"
proof (intro conjI impI allI)
  assume ok: "\<forall>rcpt subj body. send rcpt subj body = None"
  then have g: "fst (request_password_change send t n l a k d) = (True, generic_msg)" for t n l a k d
    by (simp add: request_fst split: option.split prod.split)
  show "fst (request_password_change send tok1 now1 login1 app1 lnk1 db1) = (True, generic_msg)"
    by (rule g)
  show "fst (request_password_change send tok1 now1 login1 app1 lnk1 db1)
          = fst (request_password_change send tok2 now2 login2 app2 lnk2 db2)"
    by (simp add: g)
next
  assume "select_user login db = None
        \<or> (\<exists>row. select_user login db = Some row \<and> \<not> truthy_int (is_active row))"
  then show "snd (request_password_change send tok now login app lnk db) = db"
    by (auto simp: request_snd get_user_by_login_def)
next
  fix row
  assume "select_user login db = Some row \<and> truthy_int (is_active row)"
  then show "snd (request_password_change send tok now login app lnk db)
        = db\<lparr>password_tokens := password_tokens db @
               [\<lparr>tid = next_tid db, user_id = uid row, token = tok,
                 purpose = ''password_change'',
                 expires_at = Stamp ((now + 15 * 60000000) div 1000000),
                 used_at = None\<rparr>]\<rparr>"
    by (simp add: request_snd get_user_by_login_def create_token_def)
qed

theorem reset_request_generic_witness:
  "fst (request_password_change mail_ok ''t1'' 900000 ''a@x.com'' ''Takeout MS'' None (hashed_db (Some 1)))
     = (True, generic_msg)
   \<and> fst (request_password_change mail_ok ''t1'' 900000 ''a@x.com'' ''Takeout MS'' None (hashed_db (Some 1)))
     = fst (request_password_change mail_ok ''t2'' 7 ''nobody'' ''Takeout MS'' None (hashed_db (Some 1)))
   \<and> snd (request_password_change mail_ok ''t2'' 7 ''nobody'' ''Takeout MS'' None (hashed_db (Some 1)))
     = hashed_db (Some 1)
   \<and> snd (request_password_change mail_ok ''t1'' 900000 ''a@x.com'' ''Takeout MS'' None (hashed_db (Some 1)))
     = (hashed_db (Some 1))\<lparr>password_tokens :=
          [\<lparr>tid = 1, user_id = 1, token = ''t1'', purpose = ''password_change'',
            expires_at = Stamp 900, used_at = None\<rparr>]\<rparr>"
proof -
  have ok: "\<forall>rcpt subj body. mail_ok rcpt subj body = None"
    by (simp add: mail_ok_def)
  have none: "select_user ''nobody'' (hashed_db (Some 1)) = None"
    by (simp add: select_user_def hashed_db_def hashed_user_def)
  have some: "select_user ''a@x.com'' (hashed_db (Some 1)) = Some (hashed_user (Some 1))
              \<and> truthy_int (is_active (hashed_user (Some 1)))"
    by (simp add: select_user_def hashed_db_def hashed_user_def truthy_int_def)
  have vals: "next_tid (hashed_db (Some 1)) = 1" "uid (hashed_user (Some 1)) = 1"
    "password_tokens (hashed_db (Some 1)) = []"
    by (simp_all add: next_tid_def hashed_db_def hashed_user_def)
  from reset_request_generic
         [of mail_ok "''t1''" 900000 "''a@x.com''" "''Takeout MS''" None "hashed_db (Some 1)"
             "''t2''" 7 "''nobody''" "''Takeout MS''" None "hashed_db (Some 1)"
             "''nobody''" "hashed_db (Some 1)" "''t2''" 7 "''Takeout MS''" None]
       reset_request_generic
         [of mail_ok "''t1''" 900000 "''a@x.com''" "''Takeout MS''" None "hashed_db (Some 1)"
             "''t2''" 7 "''nobody''" "''Takeout MS''" None "hashed_db (Some 1)"
             "''a@x.com''" "hashed_db (Some 1)" "''t1''" 900000 "''Takeout MS''" None]
       ok none some
  show ?thesis by (simp add: vals)
qed

section \<open>Properties of the reconciler\<close>

lemma replicate_num: "replicate (numeral k) x = x # replicate (pred_numeral k) x"
  by (simp add: numeral_eq_Suc)

lemma upt_Suc_front: "[0 ..< Suc n] = 0 # map Suc [0 ..< n]"
  by (simp only: upt_conv_Cons [OF zero_less_Suc] map_Suc_upt)

lemma upt_0_2: "[0 ..< 2] = [0, 1]"
  by (simp add: upt_rec)

lemma next_doc_no_eq:
  "next_doc_no prefix pad when db =
     (prefix @ ''-'' @ yyyymm when @ ''-''
        @ zfill pad (str_int ((case sequences db (prefix @ ''-'' @ yyyymm when) of
                                 None \<Rightarrow> 0 | Some v \<Rightarrow> v) + 1)),
      db\<lparr>sequences := (sequences db)(prefix @ ''-'' @ yyyymm when \<mapsto>
           (case sequences db (prefix @ ''-'' @ yyyymm when) of None \<Rightarrow> 0 | Some v \<Rightarrow> v) + 1)\<rparr>)"
  by (simp add: next_doc_no_def Let_def split: option.split)

lemma yyyymm_2025_01: "yyyymm (2025, 1) = ''202501''"
  by (simp add: yyyymm_def zfill_def str_nat.simps)









lemma find_app:
  "find P (xs @ ys) = (case find P xs of None \<Rightarrow> find P ys | Some x \<Rightarrow> Some x)"
  by (induction xs) simp_all

lemma fold_header_find:
  "fold (\<lambda>(src, dst) h. case rget first src of None \<Rightarrow> h | Some v \<Rightarrow> h(dst \<mapsto> val dst v)) cm h k
     = (case find (\<lambda>(src, dst). dst = k \<and> rget first src \<noteq> None) (rev cm) of
          None \<Rightarrow> h k
        | Some (src, dst) \<Rightarrow> Some (val k (the (rget first src))))"
proof (induction cm arbitrary: h)
  case Nil
  show ?case by simp
next
  case (Cons x xs)
  obtain src dst where x: "x = (src, dst)" by (cases x)
  show ?case
    unfolding x
    by (simp add: Cons.IH find_app split: option.split)
qed

lemma base_header_financial_status:
  "base_header p first ''financial_status''
     = (case rget first ''Financial Status'' of
          None \<Rightarrow> None | Some v \<Rightarrow> Some (HS (s_text p (Some v))))"
  unfolding base_header_def fold_header_find
  by (simp add: COLMAP_def money_fields_def split: option.split)

lemma base_header_vendor:
  "base_header p first ''vendor''
     = (case rget first ''Vendor'' of
          None \<Rightarrow> None | Some v \<Rightarrow> Some (HS (s_text p (Some v))))"
  unfolding base_header_def fold_header_find
  by (simp add: COLMAP_def money_fields_def split: option.split)

lemma base_header_invoice_no:
  "base_header p first ''invoice_no''
     = (case rget first ''Name'' of
          None \<Rightarrow> None | Some v \<Rightarrow> Some (HS (s_text p (Some v))))"
  unfolding base_header_def fold_header_find
  by (simp add: COLMAP_def money_fields_def split: option.split)


lemma header_core_status:
  "header_core p first ''financial_status''
     = Some (HS (clean_status (case rget first ''Financial Status'' of
                                 None \<Rightarrow> Some ''Pending''
                               | Some v \<Rightarrow> Some (s_text p (Some v)))))"
  by (simp add: header_core_def Let_def base_header_financial_status hv_str_def
        split: option.split)

lemma header_core_vendor:
  "header_core p first ''vendor''
     = Some (HS (clean_vendor (case rget first ''Vendor'' of
                                 None \<Rightarrow> []
                               | Some v \<Rightarrow> s_text p (Some v))))"
  by (simp add: header_core_def Let_def base_header_vendor hv_str_def
        split: option.split)

lemma header_core_invoice_no:
  "header_core p first ''invoice_no''
     = Some (HS (clean_invoice_no (case rget first ''Name'' of
                                     None \<Rightarrow> s_text p (or_cells [None, rget first ''Id''])
                                   | Some v \<Rightarrow> s_text p (Some v))))"
  by (simp add: header_core_def Let_def base_header_invoice_no hv_str_def
        split: option.split)

lemma header_from_group_Cons:
  "\<exists>h. header_from_group p (first # rest) c = Some (h, group_items p (first # rest) c)
        \<and> (\<forall>k. k \<noteq> ''subtotal'' \<longrightarrow> k \<noteq> ''discount_amount'' \<longrightarrow> k \<noteq> ''total''
               \<longrightarrow> h k = header_core p first k)"
  by (simp add: header_from_group_def Let_def)


lemma fold_max_sid:
  "a \<le> fold (\<lambda>r m. max (sid r) m) rs a \<and> (\<forall>r \<in> set rs. sid r \<le> fold (\<lambda>r m. max (sid r) m) rs a)"
proof (induction rs arbitrary: a)
  case Nil
  show ?case by simp
next
  case (Cons x xs)
  from Cons.IH [of "max (sid x) a"] show ?case by auto
qed

lemma next_sid_fresh: "next_sid db \<notin> sid ` set (sales db)"
proof
  assume "next_sid db \<in> sid ` set (sales db)"
  then obtain r where r: "r \<in> set (sales db)" and e: "sid r = next_sid db" by auto
  from fold_max_sid [of 0 "sales db"] r have "sid r \<le> fold (\<lambda>r m. max (sid r) m) (sales db) 0"
    by blast
  with e show False by (simp add: next_sid_def)
qed

lemma select_sale_None: "select_sale ino db = None \<longleftrightarrow> ino \<notin> invoice_nos db"
  by (auto simp: select_sale_def invoice_nos_def find_None_iff)

lemma select_sale_Some:
  "select_sale ino db = Some row \<Longrightarrow> row \<in> set (sales db) \<and> row_fields row ''invoice_no'' = Some (HS ino)"
  by (auto simp: select_sale_def find_Some_iff)

lemma invoice_no_column: "''invoice_no'' \<in> set sales_columns"
  by (simp add: sales_columns_def)

lemma save_order_props:
  assumes hdr: "hdr ''invoice_no'' = Some (HS ino)" and uniq: "unique_ids db"
  shows "invoice_nos (snd (save_order p hdr its db)) = insert ino (invoice_nos db)
       \<and> unique_ids (snd (save_order p hdr its db))
       \<and> length (sales (snd (save_order p hdr its db)))
           = length (sales db) + (if ino \<in> invoice_nos db then 0 else 1)
       \<and> sequences (snd (save_order p hdr its db)) = sequences db"
proof -
  define ch where "ch = hdr |` set sales_columns"
  have ch: "ch ''invoice_no'' = Some (HS ino)"
    by (simp add: ch_def restrict_map_def invoice_no_column hdr)
  have found: "(case ch ''invoice_no'' of None \<Rightarrow> None | Some v \<Rightarrow> select_sale (hv_str p v) db)
                 = select_sale ino db"
    by (simp add: ch hv_str_def)
  show ?thesis
  proof (cases "select_sale ino db")
    case None
    then have notin: "ino \<notin> invoice_nos db" by (simp add: select_sale_None)
    have so: "snd (save_order p hdr its db)
                = db\<lparr>sales := sales db @
                     [\<lparr>sid = next_sid db, row_fields = ch,
                       sale_items = zip [1 ..< Suc (length its)] its\<rparr>]\<rparr>"
      unfolding save_order_def Let_def ch_def [symmetric] found None by simp
    have a: "invoice_nos (snd (save_order p hdr its db)) = insert ino (invoice_nos db)"
      unfolding so by (auto simp: invoice_nos_def ch)
    have b: "unique_ids (snd (save_order p hdr its db))"
      unfolding so using uniq next_sid_fresh [of db] by (simp add: unique_ids_def)
    have c: "length (sales (snd (save_order p hdr its db)))
           = length (sales db) + (if ino \<in> invoice_nos db then 0 else 1)"
      unfolding so using notin by simp
    have d: "sequences (snd (save_order p hdr its db)) = sequences db"
      unfolding so by simp
    from a b c d show ?thesis by blast
  next
    case (Some row)
    then have isin: "ino \<in> invoice_nos db" using select_sale_None [of ino db] by simp
    from Some have row: "row \<in> set (sales db)" and rino: "row_fields row ''invoice_no'' = Some (HS ino)"
      using select_sale_Some by blast+
    define upd where "upd = (\<lambda>r :: sale_row. if sid r = sid row
                                     then r\<lparr>row_fields := row_fields r ++ ch,
                                            sale_items := zip [1 ..< Suc (length its)] its\<rparr>
                                     else r)"
    have so: "snd (save_order p hdr its db) = db\<lparr>sales := map upd (sales db)\<rparr>"
      unfolding save_order_def Let_def ch_def [symmetric] found Some upd_def by simp
    have inj: "inj_on sid (set (sales db))"
      using uniq by (simp add: unique_ids_def distinct_map)
    have same: "row_fields (upd r) ''invoice_no'' = row_fields r ''invoice_no''"
      if "r \<in> set (sales db)" for r
    proof (cases "sid r = sid row")
      case True
      with inj that row have "r = row" by (auto dest: inj_onD)
      then show ?thesis by (simp add: upd_def map_add_def ch rino)
    next
      case False
      then show ?thesis by (simp add: upd_def)
    qed
    have a: "invoice_nos (snd (save_order p hdr its db)) = insert ino (invoice_nos db)"
      unfolding so using isin same by (auto simp: invoice_nos_def)
    have sids: "map (sid \<circ> upd) (sales db) = map sid (sales db)"
      by (simp add: upd_def)
    have b: "unique_ids (snd (save_order p hdr its db))"
      unfolding so using uniq by (simp add: unique_ids_def sids)
    have c: "length (sales (snd (save_order p hdr its db)))
           = length (sales db) + (if ino \<in> invoice_nos db then 0 else 1)"
      unfolding so using isin by simp
    have d: "sequences (snd (save_order p hdr its db)) = sequences db"
      unfolding so by simp
    from a b c d show ?thesis by blast
  qed
qed


lemma normalized_Cons: "normalized p (first # rest) k = hdr_text p (header_core p first) k"
  by (simp add: normalized_def)


lemma group_header:
  assumes "g \<noteq> []"
  obtains h where
    "header_from_group p g c = Some (h, group_items p g c)"
    "hdr_text p h ''financial_status'' = normalized p g ''financial_status''"
    "hdr_text p h ''vendor'' = normalized p g ''vendor''"
    "hdr_text p h ''invoice_no'' = normalized p g ''invoice_no''"
    "h ''invoice_no'' = Some (HS (normalized p g ''invoice_no''))"
proof -
  from assms obtain first rest where g: "g = first # rest" by (cases g) auto
  from header_from_group_Cons [of p first rest c] obtain h where
    h: "header_from_group p (first # rest) c = Some (h, group_items p (first # rest) c)"
    and hk: "\<And>k. k \<noteq> ''subtotal'' \<Longrightarrow> k \<noteq> ''discount_amount'' \<Longrightarrow> k \<noteq> ''total''
               \<Longrightarrow> h k = header_core p first k"
    by blast
  have a: "hdr_text p h ''financial_status'' = normalized p g ''financial_status''"
    by (simp add: g normalized_Cons hdr_text_def hk)
  have b: "hdr_text p h ''vendor'' = normalized p g ''vendor''"
    by (simp add: g normalized_Cons hdr_text_def hk)
  have c: "hdr_text p h ''invoice_no'' = normalized p g ''invoice_no''"
    by (simp add: g normalized_Cons hdr_text_def hk)
  have d: "h ''invoice_no'' = Some (HS (normalized p g ''invoice_no''))"
    by (simp add: g normalized_Cons hdr_text_def hk header_core_invoice_no hv_str_def)
  from h a b c d that show thesis unfolding g by blast
qed

lemma process_group_skip_status:
  assumes "g \<noteq> []"
    and "normalized (builtins env) g ''financial_status'' \<notin> ALLOWED_STATUS"
  shows "process_group env (key, g) st
           = skip_group env (str_cell (builtins env) key) ''skip_invalid_status''
               (normalized (builtins env) g ''invoice_no'')
               (''Invalid financial_status ''
                  @ quoted (normalized (builtins env) g ''financial_status'')
                  @ '' after normalization'') st"
proof -
  from group_header [OF assms(1), of "builtins env" "combine_items env"] obtain h where
    h: "header_from_group (builtins env) g (combine_items env)
          = Some (h, group_items (builtins env) g (combine_items env))"
    and fs: "hdr_text (builtins env) h ''financial_status''
               = normalized (builtins env) g ''financial_status''"
    and ino: "hdr_text (builtins env) h ''invoice_no'' = normalized (builtins env) g ''invoice_no''"
    by blast
  show ?thesis
    unfolding process_group_def using assms(2) by (simp add: h fs ino Let_def)
qed






lemma process_group_valid:
  assumes v: "valid_group (builtins env) g" and u: "unique_ids (store st)"
  shows "skipped (process_group env (key, g) st) = skipped st
         \<and> imported (process_group env (key, g) st)
             = imported st
               + (if normalized (builtins env) g ''invoice_no'' \<in> invoice_nos (store st)
                  then 0 else 1)
         \<and> updated (process_group env (key, g) st)
             = updated st
               + (if normalized (builtins env) g ''invoice_no'' \<in> invoice_nos (store st)
                  then 1 else 0)
         \<and> invoice_nos (store (process_group env (key, g) st))
             = insert (normalized (builtins env) g ''invoice_no'') (invoice_nos (store st))
         \<and> unique_ids (store (process_group env (key, g) st))
         \<and> length (sales (store (process_group env (key, g) st)))
             = length (sales (store st))
               + (if normalized (builtins env) g ''invoice_no'' \<in> invoice_nos (store st)
                  then 0 else 1)"
proof -
  define p where "p = builtins env"
  define ino where "ino = normalized p g ''invoice_no''"
  define its where "its = group_items p g (combine_items env)"
  from v have ne: "g \<noteq> []"
    and g1: "normalized p g ''financial_status'' \<in> ALLOWED_STATUS"
    and g2: "normalized p g ''vendor'' \<in> ALLOWED_VENDORS"
    and g3: "ino \<noteq> []"
    by (simp_all add: valid_group_def p_def ino_def)
  from group_header [OF ne, of p "combine_items env"] obtain h where
    h: "header_from_group p g (combine_items env) = Some (h, its)"
    and fs: "hdr_text p h ''financial_status'' = normalized p g ''financial_status''"
    and ve: "hdr_text p h ''vendor'' = normalized p g ''vendor''"
    and hino: "hdr_text p h ''invoice_no'' = ino"
    and hk: "h ''invoice_no'' = Some (HS ino)"
    unfolding its_def ino_def by blast
  define numbered where "numbered =
      (if \<not> truthy_hval (h ''receipt_number'')
       then (let r = next_doc_no (doc_prefix env) (doc_pad env) (today env) (store st)
             in (h(''receipt_number'' \<mapsto> HS (fst r)), snd r))
       else (h, store st))"
  define header1 where "header1 = fst numbered"
  define db1 where "db1 = snd numbered"
  define existing where "existing = select_sale ino db1"
  define header2 where "header2 =
      (case existing of
         None \<Rightarrow> header1
       | Some row \<Rightarrow>
           if truthy_hval (row_fields row ''receipt_number'')
           then header1(''receipt_number'' := row_fields row ''receipt_number'')
           else header1)"
  define saved where "saved = save_order p header2 its db1"
  have pg: "process_group env (key, g) st
              = (let numbered' = numbered; header1' = header1; db1' = db1; existing' = existing;
                     header2' = header2; saved' = saved;
                     entry =
                        \<lparr>action = (if existing' \<noteq> None then ''update'' else ''insert''),
                         audit_invoice_no = ino,
                         audit_document_no = Some (hdr_text p header2' ''receipt_number''),
                         audit_user = user_str env, audit_public_ip = public_ip env,
                         audit_details = SaleId (fst saved')\<rparr>
                 in if existing' \<noteq> None
                    then st\<lparr>store := snd saved', updated := updated st + 1,
                            audit_log := audit_log st @ [entry]\<rparr>
                    else st\<lparr>store := snd saved', imported := imported st + 1,
                            audit_log := audit_log st @ [entry]\<rparr>)"
    unfolding process_group_def saved_def header2_def existing_def db1_def header1_def
      numbered_def p_def [symmetric]
    using g1 g2 g3 by (simp only: h fs ve hino option.case prod.case Let_def if_False if_True
        not_True_eq_False not_False_eq_True fst_conv snd_conv)
  have sales1: "sales db1 = sales (store st)"
    by (simp add: db1_def numbered_def next_doc_no_eq Let_def)
  have inv1: "invoice_nos db1 = invoice_nos (store st)"
    by (simp add: invoice_nos_def sales1)
  have u1: "unique_ids db1"
    using u by (simp add: unique_ids_def sales1)
  have h1: "header1 ''invoice_no'' = Some (HS ino)"
    by (simp add: header1_def numbered_def Let_def hk)
  have h2: "header2 ''invoice_no'' = Some (HS ino)"
    by (simp add: header2_def h1 split: option.split)
  have ex: "existing \<noteq> None \<longleftrightarrow> ino \<in> invoice_nos (store st)"
    using select_sale_None [of ino db1] by (simp add: existing_def inv1)
  from save_order_props [where hdr = header2 and ino = ino and db = db1 and p = p
      and its = its, OF h2 u1]
  have so: "invoice_nos (snd saved) = insert ino (invoice_nos (store st))"
    "unique_ids (snd saved)"
    "length (sales (snd saved)) = length (sales (store st))
        + (if ino \<in> invoice_nos (store st) then 0 else 1)"
    unfolding saved_def inv1 sales1 by blast+
  show ?thesis
    unfolding p_def [symmetric] ino_def [symmetric] pg Let_def
    using so ex by (cases "existing = None") simp_all
qed






lemmas str_defs = strip_def lstrip_def rstrip_def py_isspace_def lower_def to_lower_def
  to_upper_def is_upper_def is_lower_def upper_letters_def lower_letters_def title_def

lemma rget_soap_gates:
  "rget row_soap ''Name'' = Some (Str ''1001'')"
  "rget row_soap ''Financial Status'' = Some (Str ''Unpaid'')"
  "rget row_soap ''Vendor'' = Some (Str ''Swiss Proli Inc'')"
  by (simp_all add: rget_def row_soap_def)

lemma rget_bad_gates:
  "rget row_bad ''Name'' = Some (Str ''1002'')"
  "rget row_bad ''Financial Status'' = Some (Str ''garbage-value'')"
  "rget row_bad ''Vendor'' = Some (Str ''Takeout Store'')"
  by (simp_all add: rget_def row_bad_def)

lemma clean_status_Unpaid: "clean_status (Some ''Unpaid'') = ''Pending''"
  by (simp add: clean_status_def STATUS_MAP_def Let_def str_defs)

lemma clean_status_garbage: "clean_status (Some ''garbage-value'') = ''Garbage-Value''"
  by (simp add: clean_status_def STATUS_MAP_def Let_def str_defs)

lemma strip_examples:
  "strip ''Unpaid'' = ''Unpaid''"
  "strip ''garbage-value'' = ''garbage-value''"
  "strip ''Swiss Proli Inc'' = ''Swiss Proli Inc''"
  "strip ''Takeout Store'' = ''Takeout Store''"
  "strip ''1001'' = ''1001''"
  "strip ''1002'' = ''1002''"
  by (simp_all add: strip_def lstrip_def rstrip_def py_isspace_def)

lemma clean_vendor_examples:
  "clean_vendor ''Swiss Proli Inc'' = ''Swiss Proli''"
  "clean_vendor ''Takeout Store'' = ''Takeout Store''"
  by (simp_all add: clean_vendor_def VENDOR_MAP_def ALLOWED_VENDORS_def Let_def str_defs
        is_alnum_lower_def startswith_def)

lemma clean_invoice_no_examples:
  "clean_invoice_no ''1001'' = ''1001''"
  "clean_invoice_no ''1002'' = ''1002''"
  by (simp_all add: clean_invoice_no_def endswith_def Let_def str_defs)

lemma normalized_soap:
  "normalized py0 [row_soap] ''financial_status'' = ''Pending''"
  "normalized py0 [row_soap] ''vendor'' = ''Swiss Proli''"
  "normalized py0 [row_soap] ''invoice_no'' = ''1001''"
  by (simp_all add: normalized_Cons hdr_text_def hv_str_def header_core_status
        header_core_vendor header_core_invoice_no rget_soap_gates s_text_def strip_examples
        clean_status_Unpaid clean_vendor_examples clean_invoice_no_examples)

lemma normalized_bad:
  "normalized py0 [row_bad] ''financial_status'' = ''Garbage-Value''"
  "normalized py0 [row_bad] ''vendor'' = ''Takeout Store''"
  "normalized py0 [row_bad] ''invoice_no'' = ''1002''"
  by (simp_all add: normalized_Cons hdr_text_def hv_str_def header_core_status
        header_core_vendor header_core_invoice_no rget_bad_gates s_text_def strip_examples
        clean_status_garbage clean_vendor_examples clean_invoice_no_examples)






lemma unique_ids_empty: "unique_ids empty_db"
  by (simp add: unique_ids_def empty_db_def)


lemma py_isspace_to_lower: "py_isspace (to_lower c) = py_isspace c"
proof (cases "map_of (zip upper_letters lower_letters) c")
  case None
  then show ?thesis by (simp add: to_lower_def)
next
  case (Some d)
  then have "(c, d) \<in> set (zip upper_letters lower_letters)" by (rule map_of_SomeD)
  then have "\<not> py_isspace c \<and> \<not> py_isspace d"
    by (auto simp: upper_letters_def lower_letters_def py_isspace_def)
  with Some show ?thesis by (simp add: to_lower_def)
qed

lemma lower_strip: "lower (strip t) = strip (lower t)"
proof -
  have c: "py_isspace \<circ> to_lower = py_isspace"
    by (rule ext) (simp add: py_isspace_to_lower)
  have l: "map to_lower (dropWhile py_isspace s) = dropWhile py_isspace (map to_lower s)" for s
    by (simp add: dropWhile_map c)
  show ?thesis
    by (simp add: lower_def strip_def lstrip_def rstrip_def l rev_map [symmetric])
qed

lemma status_map_values:
  assumes "map_of STATUS_MAP low = Some v"
  shows "low \<noteq> [] \<and> low \<notin> {''nan'', ''none'', ''null''} \<and> v \<in> ALLOWED_STATUS"
proof -
  from assms have "(low, v) \<in> set STATUS_MAP" by (rule map_of_SomeD)
  then show ?thesis by (auto simp: STATUS_MAP_def ALLOWED_STATUS_def)
qed

lemma clean_status_synonym:
  assumes "lower t' = lower t" and "map_of STATUS_MAP (lower (strip t)) = Some v"
  shows "clean_status (Some t') = v \<and> v \<in> ALLOWED_STATUS"
proof -
  have e: "lower (strip t') = lower (strip t)"
    by (simp add: lower_strip assms(1))
  from status_map_values [OF assms(2)]
  have k: "lower (strip t) \<noteq> []" "lower (strip t) \<notin> {''nan'', ''none'', ''null''}"
    and v: "v \<in> ALLOWED_STATUS" by blast+
  from k(1) e have ne: "strip t' \<noteq> []" by (auto simp: lower_def)
  have "clean_status (Some t') = v"
    using ne k(2) assms(2) by (simp add: clean_status_def Let_def e)
  with v show ?thesis by blast
qed

lemma clean_status_unknown:
  assumes "strip u \<noteq> []" and "lower (strip u) \<notin> {''nan'', ''none'', ''null''}"
    and "map_of STATUS_MAP (lower (strip u)) = None"
  shows "clean_status (Some u) = strip (title (strip u))"
  using assms by (simp add: clean_status_def Let_def)

lemma normalized_status:
  "normalized p (first # rest) ''financial_status''
     = clean_status (case rget first ''Financial Status'' of
                       None \<Rightarrow> Some ''Pending''
                     | Some x \<Rightarrow> Some (s_text p (Some x)))"
  by (simp add: normalized_Cons hdr_text_def header_core_status hv_str_def)


lemma status_map_examples:
  "map_of STATUS_MAP ''unpaid'' = Some ''Pending''"
  "map_of STATUS_MAP ''garbage-value'' = None"
  by (simp_all add: STATUS_MAP_def)

lemma lower_examples:
  "lower ''UnPaid'' = ''unpaid''"
  "lower ''unpaid'' = ''unpaid''"
  "lower ''garbage-value'' = ''garbage-value''"
  by (simp_all add: lower_def to_lower_def upper_letters_def lower_letters_def)

lemma strip_more_examples:
  "strip ''unpaid'' = ''unpaid''"
  by (simp_all add: strip_def lstrip_def rstrip_def py_isspace_def)

lemma title_garbage: "strip (title ''garbage-value'') = ''Garbage-Value''"
  by (simp add: str_defs)

lemma unique_ids_st0: "unique_ids (store st0)"
  by (simp add: st0_def unique_ids_empty)
























subsection \<open>Document numbers\<close>

text \<open>
  C8. Successive calls of \<open>_next_doc_no\<close> with the same prefix and the same year and month
  return the numbers that follow the stored counter one by one, the first call being number 1
  when the store has no counter for that prefix and month yet; each is written as
  \<open>prefix-YYYYMM-\<close> followed by the number zero-filled to the pad width, and the counter
  stored after \<open>n\<close> calls is the old one plus \<open>n\<close>.
\<close>

theorem doc_numbers_consecutive:
  "fst (issue_docs prefix pad when n db)
     = map (\<lambda>k. prefix @ ''-'' @ yyyymm when @ ''-''
                  @ zfill pad (str_int ((case sequences db (prefix @ ''-'' @ yyyymm when) of
                                           None \<Rightarrow> 0 | Some v \<Rightarrow> v) + int (Suc k))))
           [0 ..< n]
   \<and> sequences (snd (issue_docs prefix pad when n db)) (prefix @ ''-'' @ yyyymm when)
       = (if n = 0 then sequences db (prefix @ ''-'' @ yyyymm when)
          else Some ((case sequences db (prefix @ ''-'' @ yyyymm when) of
                        None \<Rightarrow> 0 | Some v \<Rightarrow> v) + int n))"
proof (induction n arbitrary: db)
  case 0
  show ?case by simp
next
  case (Suc n)
  define key where "key = prefix @ ''-'' @ yyyymm when"
  define v where "v = (case sequences db key of None \<Rightarrow> 0 | Some v \<Rightarrow> v)"
  define db' where "db' = db\<lparr>sequences := (sequences db)(key \<mapsto> v + 1)\<rparr>"
  define fmt where "fmt = (\<lambda>i. prefix @ ''-'' @ yyyymm when @ ''-'' @ zfill pad (str_int i))"
  have step: "next_doc_no prefix pad when db = (fmt (v + 1), db')"
    unfolding fmt_def db'_def v_def key_def by (rule next_doc_no_eq)
  have v': "(case sequences db' key of None \<Rightarrow> 0 | Some v \<Rightarrow> v) = v + 1"
    by (simp add: db'_def)
  have IH1: "fst (issue_docs prefix pad when n db')
               = map (\<lambda>k. fmt (v + 1 + int (Suc k))) [0 ..< n]"
    and IH2: "sequences (snd (issue_docs prefix pad when n db')) key
               = (if n = 0 then sequences db' key else Some (v + 1 + int n))"
    using Suc.IH [of db'] unfolding key_def [symmetric] v' fmt_def by blast+
  have unf: "issue_docs prefix pad when (Suc n) db
              = (fmt (v + 1) # fst (issue_docs prefix pad when n db'),
                 snd (issue_docs prefix pad when n db'))"
    by (simp add: step split: prod.split)
  have a: "fst (issue_docs prefix pad when (Suc n) db)
             = map (\<lambda>k. fmt (v + int (Suc k))) [0 ..< Suc n]"
    unfolding unf upt_Suc_front [of n] IH1
    by (simp add: o_def add.assoc add.commute add.left_commute)
  have b: "sequences (snd (issue_docs prefix pad when (Suc n) db)) key = Some (v + int (Suc n))"
    unfolding unf using IH2 by (simp add: db'_def add.assoc add.commute add.left_commute)
  from a b show ?case
    unfolding key_def [symmetric] v_def [symmetric] fmt_def by simp
qed

text \<open>
  The first two invoices of January 2025 in an empty store, with prefix \<open>INV\<close> and pad 4.
\<close>

theorem doc_numbers_consecutive_witness:
  "fst (issue_docs ''INV'' 4 (2025, 1) 2 empty_db) = [''INV-202501-0001'', ''INV-202501-0002'']
   \<and> sequences (snd (issue_docs ''INV'' 4 (2025, 1) 2 empty_db)) ''INV-202501'' = Some 2"
  using doc_numbers_consecutive [of "''INV''" 4 "(2025, 1)" 2 empty_db,
          unfolded yyyymm_2025_01 upt_0_2]
  by (simp add: empty_db_def zfill_def str_int_def str_nat.simps replicate_num)

subsection \<open>Line items\<close>




subsection \<open>Financial status\<close>

text \<open>
  C7. \<open>_clean_status\<close> maps the synonyms of its table whatever their letter case, always to
  one of \<open>Pending\<close>, \<open>Paid\<close>, \<open>Voided\<close>; \<open>Unpaid\<close> becomes \<open>Pending\<close> and
  \<open>garbage-value\<close> becomes \<open>Garbage-Value\<close>; a text that is not missing and not in the table
  is title-cased. The status of a group is \<open>_clean_status\<close> of the status cell of its first
  row. A group whose status is not one of the three is skipped: \<open>Skipped\<close> grows by one, the
  reason is added to the issues and to the audit log under \<open>skip_invalid_status\<close>, and the
  invoice store and the other counters are left as they were. A group whose status is one of
  the three, and whose vendor and invoice number pass their gates, is not skipped: it is
  counted as imported or updated and its invoice number is in the store afterwards.
\<close>

theorem status_normalization:
  "(lower t' = lower t \<and> map_of STATUS_MAP (lower (strip t)) = Some v
      \<longrightarrow> clean_status (Some t') = v \<and> v \<in> ALLOWED_STATUS)
   \<and> clean_status (Some ''Unpaid'') = ''Pending''
   \<and> clean_status (Some ''garbage-value'') = ''Garbage-Value''
   \<and> (strip u \<noteq> [] \<and> lower (strip u) \<notin> {''nan'', ''none'', ''null''}
        \<and> map_of STATUS_MAP (lower (strip u)) = None
      \<longrightarrow> clean_status (Some u) = strip (title (strip u)))
   \<and> normalized p (first # rest) ''financial_status''
       = clean_status (case rget first ''Financial Status'' of
                         None \<Rightarrow> Some ''Pending''
                       | Some x \<Rightarrow> Some (s_text p (Some x)))
   \<and> (g \<noteq> [] \<and> normalized (builtins env) g ''financial_status'' \<notin> ALLOWED_STATUS
      \<longrightarrow> (let msg = ''Invalid financial_status ''
                         @ quoted (normalized (builtins env) g ''financial_status'')
                         @ '' after normalization'';
                st' = process_group env (key, g) st
            in store st' = store st
               \<and> skipped st' = skipped st + 1
               \<and> imported st' = imported st
               \<and> updated st' = updated st
               \<and> issues st' = issues st @ [(str_cell (builtins env) key, msg)]
               \<and> audit_log st'
                   = audit_log st @
                     [\<lparr>action = ''skip_invalid_status'',
                       audit_invoice_no = normalized (builtins env) g ''invoice_no'',
                       audit_document_no = None, audit_user = user_str env,
                       audit_public_ip = public_ip env, audit_details = Reason msg\<rparr>]))
   \<and> (g' \<noteq> [] \<and> normalized (builtins env) g' ''financial_status'' \<in> ALLOWED_STATUS
        \<and> normalized (builtins env) g' ''vendor'' \<in> ALLOWED_VENDORS
        \<and> normalized (builtins env) g' ''invoice_no'' \<noteq> []
        \<and> unique_ids (store st)
      \<longrightarrow> (let st' = process_group env (key', g') st
            in skipped st' = skipped st
               \<and> imported st' + updated st' = imported st + updated st + 1
               \<and> normalized (builtins env) g' ''invoice_no'' \<in> invoice_nos (store st')))"
proof (intro conjI impI)
  assume "lower t' = lower t \<and> map_of STATUS_MAP (lower (strip t)) = Some v"
  then have "clean_status (Some t') = v \<and> v \<in> ALLOWED_STATUS"
    using clean_status_synonym by blast
  then show "clean_status (Some t') = v" and "v \<in> ALLOWED_STATUS" by blast+
next
  show "clean_status (Some ''Unpaid'') = ''Pending''" by (rule clean_status_Unpaid)
next
  show "clean_status (Some ''garbage-value'') = ''Garbage-Value''"
    by (rule clean_status_garbage)
next
  assume "strip u \<noteq> [] \<and> lower (strip u) \<notin> {''nan'', ''none'', ''null''}
        \<and> map_of STATUS_MAP (lower (strip u)) = None"
  then show "clean_status (Some u) = strip (title (strip u))"
    using clean_status_unknown by blast
next
  show "normalized p (first # rest) ''financial_status''
       = clean_status (case rget first ''Financial Status'' of
                         None \<Rightarrow> Some ''Pending''
                       | Some x \<Rightarrow> Some (s_text p (Some x)))"
    by (rule normalized_status)
next
  assume a: "g \<noteq> [] \<and> normalized (builtins env) g ''financial_status'' \<notin> ALLOWED_STATUS"
  then have ne: "g \<noteq> []"
    and bad: "normalized (builtins env) g ''financial_status'' \<notin> ALLOWED_STATUS" by blast+
  show "let msg = ''Invalid financial_status ''
                         @ quoted (normalized (builtins env) g ''financial_status'')
                         @ '' after normalization'';
                st' = process_group env (key, g) st
            in store st' = store st
               \<and> skipped st' = skipped st + 1
               \<and> imported st' = imported st
               \<and> updated st' = updated st
               \<and> issues st' = issues st @ [(str_cell (builtins env) key, msg)]
               \<and> audit_log st'
                   = audit_log st @
                     [\<lparr>action = ''skip_invalid_status'',
                       audit_invoice_no = normalized (builtins env) g ''invoice_no'',
                       audit_document_no = None, audit_user = user_str env,
                       audit_public_ip = public_ip env, audit_details = Reason msg\<rparr>]"
    unfolding Let_def process_group_skip_status [OF ne bad] by (simp add: skip_group_def)
next
  assume a: "g' \<noteq> [] \<and> normalized (builtins env) g' ''financial_status'' \<in> ALLOWED_STATUS
        \<and> normalized (builtins env) g' ''vendor'' \<in> ALLOWED_VENDORS
        \<and> normalized (builtins env) g' ''invoice_no'' \<noteq> []
        \<and> unique_ids (store st)"
  then have v: "valid_group (builtins env) g'" and u: "unique_ids (store st)"
    by (simp_all add: valid_group_def)
  from process_group_valid [OF v u, of key']
  show "let st' = process_group env (key', g') st
            in skipped st' = skipped st
               \<and> imported st' + updated st' = imported st + updated st + 1
               \<and> normalized (builtins env) g' ''invoice_no'' \<in> invoice_nos (store st')"
    unfolding Let_def by simp
qed

text \<open>
  The invoice \<open>1001\<close> of status \<open>Unpaid\<close> and the invoice \<open>1002\<close> of status
  \<open>garbage-value\<close>, each imported into the empty store.
\<close>

theorem status_normalization_witness:
  "clean_status (Some ''UnPaid'') = ''Pending''
   \<and> clean_status (Some ''garbage-value'') = ''Garbage-Value''
   \<and> clean_status (Some ''garbage-value'') = strip (title ''garbage-value'')
   \<and> normalized py0 [row_soap] ''financial_status'' = clean_status (Some ''Unpaid'')
   \<and> skipped (process_group env0 (Str ''1002'', [row_bad]) st0) = 1
   \<and> imported (process_group env0 (Str ''1002'', [row_bad]) st0) = 0
   \<and> updated (process_group env0 (Str ''1002'', [row_bad]) st0) = 0
   \<and> store (process_group env0 (Str ''1002'', [row_bad]) st0) = empty_db
   \<and> issues (process_group env0 (Str ''1002'', [row_bad]) st0)
       = [(''1002'', ''Invalid financial_status '' @ quoted ''Garbage-Value''
                     @ '' after normalization'')]
   \<and> map action (audit_log (process_group env0 (Str ''1002'', [row_bad]) st0))
       = [''skip_invalid_status'']
   \<and> skipped (process_group env0 (Str ''1001'', [row_soap]) st0) = 0
   \<and> imported (process_group env0 (Str ''1001'', [row_soap]) st0)
       + updated (process_group env0 (Str ''1001'', [row_soap]) st0) = 1
   \<and> ''1001'' \<in> invoice_nos (store (process_group env0 (Str ''1001'', [row_soap]) st0))"
proof -
  have b: "builtins env0 = py0" by (simp add: env0_def)
  have s0: "store st0 = empty_db" "skipped st0 = 0" "imported st0 = 0" "updated st0 = 0"
    "issues st0 = []" "audit_log st0 = []"
    by (simp_all add: st0_def)
  note T = status_normalization [of "''UnPaid''" "''unpaid''" "''Pending''" "''garbage-value''"
      py0 row_soap "[]" "[row_bad]" env0 "Str ''1002''" st0 "[row_soap]" "Str ''1001''"]
  have h1: "lower ''UnPaid'' = lower ''unpaid''
            \<and> map_of STATUS_MAP (lower (strip ''unpaid'')) = Some ''Pending''"
    by (simp add: lower_examples strip_more_examples status_map_examples)
  from T [THEN conjunct1, THEN mp, OF h1]
  have c1: "clean_status (Some ''UnPaid'') = ''Pending''" by blast
  from T [THEN conjunct2, THEN conjunct2, THEN conjunct1]
  have c3: "clean_status (Some ''garbage-value'') = ''Garbage-Value''" .
  have h4: "strip ''garbage-value'' \<noteq> []
            \<and> lower (strip ''garbage-value'') \<notin> {''nan'', ''none'', ''null''}
            \<and> map_of STATUS_MAP (lower (strip ''garbage-value'')) = None"
    by (simp add: lower_examples strip_examples status_map_examples)
  from T [THEN conjunct2, THEN conjunct2, THEN conjunct2, THEN conjunct1, THEN mp, OF h4]
  have c4: "clean_status (Some ''garbage-value'') = strip (title ''garbage-value'')"
    by (simp add: strip_examples)
  from T [THEN conjunct2, THEN conjunct2, THEN conjunct2, THEN conjunct2, THEN conjunct1]
  have c5: "normalized py0 [row_soap] ''financial_status'' = clean_status (Some ''Unpaid'')"
    by (simp add: rget_soap_gates s_text_def strip_examples)
  have h6: "[row_bad] \<noteq> []
            \<and> normalized (builtins env0) [row_bad] ''financial_status'' \<notin> ALLOWED_STATUS"
    by (simp add: b normalized_bad ALLOWED_STATUS_def)
  note T6 = T [THEN conjunct2, THEN conjunct2, THEN conjunct2, THEN conjunct2, THEN conjunct2,
      THEN conjunct1, THEN mp, OF h6, unfolded Let_def b normalized_bad s0]
  have c6: "skipped (process_group env0 (Str ''1002'', [row_bad]) st0) = 1
     \<and> imported (process_group env0 (Str ''1002'', [row_bad]) st0) = 0
     \<and> updated (process_group env0 (Str ''1002'', [row_bad]) st0) = 0
     \<and> store (process_group env0 (Str ''1002'', [row_bad]) st0) = empty_db
     \<and> issues (process_group env0 (Str ''1002'', [row_bad]) st0)
         = [(''1002'', ''Invalid financial_status '' @ quoted ''Garbage-Value''
                       @ '' after normalization'')]
     \<and> map action (audit_log (process_group env0 (Str ''1002'', [row_bad]) st0))
         = [''skip_invalid_status'']"
    using T6 by (simp add: str_cell_def)
  have h7: "[row_soap] \<noteq> []
        \<and> normalized (builtins env0) [row_soap] ''financial_status'' \<in> ALLOWED_STATUS
        \<and> normalized (builtins env0) [row_soap] ''vendor'' \<in> ALLOWED_VENDORS
        \<and> normalized (builtins env0) [row_soap] ''invoice_no'' \<noteq> []
        \<and> unique_ids (store st0)"
    by (simp add: b normalized_soap ALLOWED_STATUS_def ALLOWED_VENDORS_def unique_ids_st0)
  note T7 = T [THEN conjunct2, THEN conjunct2, THEN conjunct2, THEN conjunct2, THEN conjunct2,
      THEN conjunct2, THEN mp, OF h7, unfolded Let_def b normalized_soap s0]
  have c7: "skipped (process_group env0 (Str ''1001'', [row_soap]) st0) = 0
     \<and> imported (process_group env0 (Str ''1001'', [row_soap]) st0)
         + updated (process_group env0 (Str ''1001'', [row_soap]) st0) = 1
     \<and> ''1001'' \<in> invoice_nos (store (process_group env0 (Str ''1001'', [row_soap]) st0))"
    using T7 by simp
  from c1 c3 c4 c5 c6 c7 show ?thesis by blast
qed


subsection \<open>Missing financial status\<close>





subsection \<open>Importing a file twice\<close>





end
